theory Spec2Isabelle
  imports Complex_Main "HOL-Library.Word" "HOL-Library.AList" "HOL-Library.Option_ord" "HOL-Library.Multiset"
begin

section \<open>Client state: the vacation slice (frontend/src/Redux/VacationSlice.ts)\<close>

text \<open>
  The client-side \<open>VacationModel\<close> declares \<open>likesCount?: number\<close> and
  \<open>likedByMe?: boolean\<close>: both may be absent (\<open>undefined\<close>), which is \<open>None\<close> here.
  The fields the reducers never read (destination, dates, price, image) live in the
  record's extension slot, so every statement below holds for the full object.

  \<open>likesCount\<close> is a count: an integer, held in a double. An addition yields the exact
  sum rounded to a double; the rounding of an integer is the parameter \<open>round64\<close> (the
  identity up to \<open>2^53\<close> in magnitude, a nearest double beyond).
\<close>

record ClientVacation =
  cv_id :: string
  likesCount :: "int option"
  likedByMe :: "bool option"

text \<open>JavaScript's \<open>!x\<close> on an optional boolean: \<open>!undefined\<close> is \<open>true\<close>.\<close>

definition js_not :: "bool option \<Rightarrow> bool" where
  "js_not b = (case b of None \<Rightarrow> True | Some x \<Rightarrow> \<not> x)"

text \<open>JavaScript's \<open>x ?? d\<close>.\<close>

definition nullish :: "'a option \<Rightarrow> 'a \<Rightarrow> 'a" where
  "nullish x d = (case x of None \<Rightarrow> d | Some y \<Rightarrow> y)"

definition toggleLikeOptimistic ::
  "(int \<Rightarrow> int) \<Rightarrow> 'a ClientVacation_scheme list \<Rightarrow> string \<Rightarrow> 'a ClientVacation_scheme list" where
  "toggleLikeOptimistic round64 state payload =
     map (\<lambda>vacation.
            if cv_id vacation \<noteq> payload then vacation
            else
              let isLikedByMe = js_not (likedByMe vacation);
                  nextLikesCount = max 0 (round64 (nullish (likesCount vacation) 0 + (if isLikedByMe then 1 else - 1)))
              in vacation\<lparr>likedByMe := Some isLikedByMe, likesCount := Some nextLikesCount\<rparr>)
         state"

text \<open>
  The object the callback of \<open>toggleLikeOptimistic\<close> returns for a vacation with the
  payload's id, on its own.
\<close>

definition toggled :: "(int \<Rightarrow> int) \<Rightarrow> 'a ClientVacation_scheme \<Rightarrow> 'a ClientVacation_scheme" where
  "toggled round64 vacation =
     (let isLikedByMe = js_not (likedByMe vacation);
          nextLikesCount = max 0 (round64 (nullish (likesCount vacation) 0 + (if isLikedByMe then 1 else - 1)))
      in vacation\<lparr>likedByMe := Some isLikedByMe, likesCount := Some nextLikesCount\<rparr>)"

text \<open>The reducer \<open>addVacation\<close>: \<open>[...state, action.payload]\<close>.\<close>

definition addVacation_slice ::
  "'a ClientVacation_scheme list \<Rightarrow> 'a ClientVacation_scheme \<Rightarrow> 'a ClientVacation_scheme list" where
  "addVacation_slice state payload = state @ [payload]"

text \<open>
  \<open>state.findIndex(...)\<close> followed by the indexed replacement of \<open>updateVacation\<close>: the first
  vacation with the payload's id is replaced, and a list without that id is returned as it is.
\<close>

fun updateVacation_slice ::
  "'a ClientVacation_scheme list \<Rightarrow> 'a ClientVacation_scheme \<Rightarrow> 'a ClientVacation_scheme list" where
  "updateVacation_slice [] updated = []"
| "updateVacation_slice (v # vs) updated =
     (if cv_id v = cv_id updated then updated # vs else v # updateVacation_slice vs updated)"

subsection \<open>The like toggle of the API client (frontend/src/Services/VacationService.ts)\<close>

text \<open>
  \<open>toggleLike\<close> reads \<open>wasLiked\<close>, dispatches the optimistic toggle, then awaits the server:
  an unlike call when \<open>wasLiked\<close>, a like call otherwise. The server is a parameter: it
  answers with the confirmed vacation or fails (\<open>None\<close>). The result is the new store
  state and whether \<open>toggleLike\<close> threw \<open>Failed to toggle like\<close>.
\<close>

datatype like_call = LikeCall | UnlikeCall

definition wasLiked :: "'a ClientVacation_scheme list \<Rightarrow> string \<Rightarrow> bool" where
  "wasLiked state i =
     (case find (\<lambda>v. cv_id v = i) state of
        None \<Rightarrow> False
      | Some v \<Rightarrow> nullish (likedByMe v) False)"

definition toggleLike ::
  "(int \<Rightarrow> int) \<Rightarrow> (like_call \<Rightarrow> string \<Rightarrow> 'a ClientVacation_scheme option) \<Rightarrow>
   'a ClientVacation_scheme list \<Rightarrow> string \<Rightarrow> 'a ClientVacation_scheme list \<times> bool" where
  "toggleLike round64 server state i =
     (let was = wasLiked state i;
          optimistic = toggleLikeOptimistic round64 state i
      in case server (if was then UnlikeCall else LikeCall) i of
           Some updated \<Rightarrow> (updateVacation_slice optimistic updated, False)
         | None \<Rightarrow> (toggleLikeOptimistic round64 optimistic i, True))"

text \<open>A server that fails every call.\<close>

definition server_down :: "like_call \<Rightarrow> string \<Rightarrow> 'a ClientVacation_scheme option" where
  "server_down call i = None"

text \<open>
  A vacation whose counters are as the server serialises them: both fields present, the
  count not negative, and at least one like when the caller likes it.
\<close>

definition consistent_likes :: "'a ClientVacation_scheme \<Rightarrow> bool" where
  "consistent_likes v =
     (case (likedByMe v, likesCount v) of
        (Some b, Some n) \<Rightarrow> (if b then 1 \<le> n else 0 \<le> n)
      | _ \<Rightarrow> False)"

text \<open>The counts up to which every sum the toggle forms is exact in a double.\<close>

definition safe_count :: "'a ClientVacation_scheme \<Rightarrow> bool" where
  "safe_count v = (case likesCount v of None \<Rightarrow> True | Some n \<Rightarrow> \<bar>n\<bar> < 2 ^ 53)"

definition exact_to_2_53 :: "(int \<Rightarrow> int) \<Rightarrow> bool" where
  "exact_to_2_53 round64 = (\<forall>k. \<bar>k\<bar> \<le> 2 ^ 53 \<longrightarrow> round64 k = k)"

section \<open>Server: documents, errors, the persistent world\<close>

text \<open>
  A JavaScript string is a sequence of 16-bit code units; \<open>ascii\<close> embeds a literal.
  An ObjectId is identified with its hexadecimal rendering (\<open>toString()\<close>). A valid
  \<open>Date\<close> is its time value, the milliseconds since the epoch.
\<close>

type_synonym jsstring = "16 word list"
type_synonym objectId = string
type_synonym date = int

definition ascii :: "string \<Rightarrow> jsstring" where
  "ascii s = map (\<lambda>c. of_nat (of_char c)) s"

subsection \<open>models/status-code.ts, models/client-errors.ts, models/role.ts\<close>

datatype StatusCode =
  OK | Created | NoContent | BadRequest | Unauthorized | Forbidden | NotFound | InternalServerError

fun status_number :: "StatusCode \<Rightarrow> nat" where
  "status_number OK = 200"
| "status_number Created = 201"
| "status_number NoContent = 204"
| "status_number BadRequest = 400"
| "status_number Unauthorized = 401"
| "status_number Forbidden = 403"
| "status_number NotFound = 404"
| "status_number InternalServerError = 500"

text \<open>
  The client errors carry a status and a message. \<open>LibraryError\<close> is anything else that
  is thrown (a database or image-store failure): it has no \<open>status\<close> field.
\<close>

datatype error =
  RouteNotFound string string
| ResourceNotFound objectId
| ValidationError string
| AuthorizationError string
| ForbiddenError string
| LibraryError string

fun error_status :: "error \<Rightarrow> StatusCode option" where
  "error_status (RouteNotFound m r) = Some NotFound"
| "error_status (ResourceNotFound i) = Some NotFound"
| "error_status (ValidationError m) = Some BadRequest"
| "error_status (AuthorizationError m) = Some Unauthorized"
| "error_status (ForbiddenError m) = Some Forbidden"
| "error_status (LibraryError m) = None"

fun error_message :: "error \<Rightarrow> string" where
  "error_message (RouteNotFound method route) = ''Route '' @ route @ '' on method '' @ method @ '' not found.''"
| "error_message (ResourceNotFound i) = ''_id '' @ i @ '' not found.''"
| "error_message (ValidationError m) = m"
| "error_message (AuthorizationError m) = m"
| "error_message (ForbiddenError m) = m"
| "error_message (LibraryError m) = m"


datatype Role = Admin | User

fun role_number :: "Role \<Rightarrow> int" where
  "role_number Admin = 1"
| "role_number User = 2"

subsection \<open>The vacation document (3-models/vacation-model.ts, models/vacation-model.ts)\<close>

text \<open>
  The fields both schemas share. A document built by \<open>new VacationModel(request.body)\<close>
  may lack any field the body lacks (or whose value does not cast): \<open>None\<close>.
  \<open>likedUserIds\<close> has the schema default \<open>[]\<close>, so it is always an array.
\<close>

record VacationDoc =
  v_id :: objectId
  destination :: "jsstring option"
  description :: "jsstring option"
  startDate :: "date option"
  endDate :: "date option"
  price :: "rat option"
  likedUserIds :: "objectId list"

text \<open>The schema of \<open>3-models\<close> stores the name of a local image file.\<close>

record FileVacation = VacationDoc +
  imageName :: "string option"

text \<open>The schema of \<open>models\<close> stores the Cloudinary URL and public id, both required.\<close>

record CloudVacation = VacationDoc +
  imageUrl :: "string option"
  imagePublicId :: "string option"

text \<open>
  \<open>document.validateSync()\<close> for the validators both schemas declare on the shared
  fields: the messages of the failed validators. Mongoose's \<open>required\<close> rejects an
  absent value and, for a String path, the empty string. An \<open>_id\<close> that did not cast is
  reported as well.
\<close>

text \<open>
  Where a string stands for an ObjectId (a route parameter, the \<open>_id\<close> of a request body)
  Mongoose casts it, and the cast fails unless the string is 24 hexadecimal digits.
\<close>

definition is_hex :: "char \<Rightarrow> bool" where
  "is_hex c = (c \<in> set ''0123456789abcdefABCDEF'')"

definition is_objectId :: "string \<Rightarrow> bool" where
  "is_objectId s = (length s = 24 \<and> list_all is_hex s)"

definition cast_message :: "string \<Rightarrow> string" where
  "cast_message i = ''Cast to ObjectId failed for value '' @ i @ '' at path _id''"

definition validate_id :: "objectId \<Rightarrow> string list" where
  "validate_id i = (if is_objectId i then [] else [cast_message i])"

definition validate_text :: "jsstring option \<Rightarrow> nat \<Rightarrow> string \<Rightarrow> string \<Rightarrow> string list" where
  "validate_text value maxlength missing too_long =
     (case value of
        None \<Rightarrow> [missing]
      | Some s \<Rightarrow> (if s = [] then [missing] else if maxlength < length s then [too_long] else []))"

definition validate_required :: "'a option \<Rightarrow> string \<Rightarrow> string list" where
  "validate_required value missing = (case value of None \<Rightarrow> [missing] | Some x \<Rightarrow> [])"

definition validate_price :: "rat option \<Rightarrow> string list" where
  "validate_price value =
     (case value of
        None \<Rightarrow> [''Missing price.'']
      | Some p \<Rightarrow> (if p < 0 then [''Price can'' @ [CHR 0x27] @ ''t be negative.'']
                  else if 10000 < p then [''Price can'' @ [CHR 0x27] @ ''t exceed 10000.''] else []))"

definition validateSync_shared :: "'a VacationDoc_scheme \<Rightarrow> string list" where
  "validateSync_shared d =
     validate_id (v_id d)
   @ validate_text (destination d) 100 ''Missing destination.'' ''Destination too long.''
   @ validate_text (description d) 1000 ''Missing description.'' ''Description too long.''
   @ validate_required (startDate d) ''Missing start date.''
   @ validate_required (endDate d) ''Missing end date.''
   @ validate_price (price d)"

text \<open>In the file schema \<open>imageName\<close> has no validator.\<close>

definition validateSync_file :: "FileVacation \<Rightarrow> string list" where
  "validateSync_file d = validateSync_shared d"

definition validateSync_cloud :: "CloudVacation \<Rightarrow> string list" where
  "validateSync_cloud d =
     validateSync_shared d
   @ validate_required (imageUrl d) ''Path `imageUrl` is required.''
   @ validate_required (imagePublicId d) ''Path `imagePublicId` is required.''"

text \<open>\<open>Array.prototype.join\<close> on strings.\<close>

fun join :: "'c list \<Rightarrow> 'c list list \<Rightarrow> 'c list" where
  "join sep [] = []"
| "join sep [x] = x"
| "join sep (x # y # ys) = x @ sep @ join sep (y # ys)"

text \<open>\<open>ValidationError.validate\<close>, given the result of \<open>validateSync\<close>.\<close>

definition validate :: "string list \<Rightarrow> error + unit" where
  "validate messages =
     (if messages = [] then Inr () else Inl (ValidationError (join '' '' messages)))"

subsection \<open>The world a request runs in\<close>

text \<open>
  What the services read and write: the \<open>vacations\<close> collection, the image store (the
  files kept by \<open>fileSaver\<close>, or the public ids of the Cloudinary assets) and, for the
  order of effects, a journal of the database and image-store calls made so far.
  \<open>cloud_up\<close> tells whether a call to the external image store succeeds.
\<close>

datatype effect =
  FindById objectId
| InsertRecord objectId
| UpdateRecord objectId
| DeleteRecord objectId
| AddImage string
| DeleteImage string

record 'v World =
  vacations :: "'v list"
  images :: "string list"
  journal :: "effect list"
  cloud_up :: bool

definition log_effect :: "effect \<Rightarrow> 'v World \<Rightarrow> 'v World" where
  "log_effect e w = w\<lparr>journal := journal w @ [e]\<rparr>"

text \<open>
  A call returns its result, or the error it throws, together with the world it leaves
  behind.
\<close>

type_synonym ('r, 'v) outcome = "(error + 'r) \<times> 'v World"

text \<open>
  \<open>VacationModel.findById(_id).exec()\<close>: the document or null; an id that does not cast
  is refused before the database is asked.
\<close>

definition findById ::
  "objectId \<Rightarrow> ('a VacationDoc_scheme) World \<Rightarrow> ('a VacationDoc_scheme option, 'a VacationDoc_scheme) outcome" where
  "findById i w =
     (if \<not> is_objectId i then (Inl (LibraryError (cast_message i)), w)
      else (Inr (find (\<lambda>d. v_id d = i) (vacations w)), log_effect (FindById i) w))"

text \<open>
  \<open>vacation.save()\<close> of a new document: an insert, which the database refuses when the
  \<open>_id\<close> is taken. (Mongoose validates the document once more before the insert; where
  \<open>save\<close> is called below the document has just passed \<open>validateSync\<close> and only a field
  without validators has changed since.)
\<close>

definition save :: "'a VacationDoc_scheme \<Rightarrow> ('a VacationDoc_scheme) World \<Rightarrow> error + ('a VacationDoc_scheme \<times> ('a VacationDoc_scheme) World)" where
  "save d w =
     (if v_id d \<in> v_id ` set (vacations w) then Inl (LibraryError ''E11000 duplicate key error'')
      else Inr (d, log_effect (InsertRecord (v_id d)) (w\<lparr>vacations := vacations w @ [d]\<rparr>)))"


text \<open>Replace the document with the given id by its image under \<open>f\<close> (ids are unique keys).\<close>

definition modify :: "objectId \<Rightarrow> ('v \<Rightarrow> 'v) \<Rightarrow> ('v \<Rightarrow> objectId) \<Rightarrow> 'v list \<Rightarrow> 'v list" where
  "modify i f key ds = map (\<lambda>d. if key d = i then f d else d) ds"

section \<open>The vacation service with local image files (Backend/src/4-services/vacation-service.ts)\<close>

text \<open>
  Local time. The host's time zone is a parameter: \<open>atUtc z t\<close> is the offset of local
  time from UTC (in milliseconds) in force at the instant \<open>t\<close>, and \<open>atLocal z l\<close> the offset
  by which the local time value \<open>l\<close> is turned back into an instant (ECMAScript's
  \<open>LocalTZA(t, true)\<close> and \<open>LocalTZA(l, false)\<close>). Both vary with the date where the zone
  has daylight saving time.
\<close>

record Zone =
  atUtc :: "date \<Rightarrow> int"
  atLocal :: "int \<Rightarrow> int"

definition msPerDay :: int where
  "msPerDay = 86400000"

text \<open>The local calendar day of an instant, as a day number.\<close>

definition local_day :: "Zone \<Rightarrow> date \<Rightarrow> int" where
  "local_day z t = (t + atUtc z t) div msPerDay"

text \<open>The instant at which a local calendar day starts.\<close>

definition day_start :: "Zone \<Rightarrow> int \<Rightarrow> date" where
  "day_start z d = d * msPerDay - atLocal z (d * msPerDay)"

text \<open>
  \<open>date.setHours(0, 0, 0, 0)\<close>: the local time of the date with the time of day set to
  zero, turned back into an instant.
\<close>

definition setHours0 :: "Zone \<Rightarrow> date \<Rightarrow> date" where
  "setHours0 z t = day_start z (local_day z t)"


text \<open>A zone with one offset all year, and New York around the end of daylight saving
  time in 2025 (2025-11-02, 06:00 UTC, which is 02:00 local daylight time).\<close>

definition fixed_zone :: "int \<Rightarrow> Zone" where
  "fixed_zone offset = \<lparr>atUtc = (\<lambda>t. offset), atLocal = (\<lambda>l. offset)\<rparr>"


text \<open>
  \<open>a < b\<close> on dates: the time values are compared; an absent or invalid date converts to
  NaN, and every comparison with NaN is false.
\<close>

definition date_lt :: "date option \<Rightarrow> date option \<Rightarrow> bool" where
  "date_lt a b = (case (a, b) of (Some x, Some y) \<Rightarrow> x < y | _ \<Rightarrow> False)"

text \<open>
  An uploaded image is identified with the unique file name \<open>fileSaver\<close> stores it under.
  \<open>fileSaver.update\<close> stores the new file and then removes the old one.
\<close>

type_synonym UploadedFile = string

definition fileSaver_add :: "UploadedFile \<Rightarrow> 'v World \<Rightarrow> string \<times> 'v World" where
  "fileSaver_add img w = (img, log_effect (AddImage img) (w\<lparr>images := images w @ [img]\<rparr>))"

definition fileSaver_delete :: "string \<Rightarrow> 'v World \<Rightarrow> 'v World" where
  "fileSaver_delete name w = log_effect (DeleteImage name) (w\<lparr>images := removeAll name (images w)\<rparr>)"

definition fileSaver_update :: "string option \<Rightarrow> UploadedFile \<Rightarrow> 'v World \<Rightarrow> string \<times> 'v World" where
  "fileSaver_update old img w =
     (let (name, w1) = fileSaver_add img w
      in (name, case old of None \<Rightarrow> w1 | Some oldName \<Rightarrow> fileSaver_delete oldName w1))"

definition addVacation ::
  "date \<Rightarrow> Zone \<Rightarrow> FileVacation \<Rightarrow> UploadedFile option \<Rightarrow> FileVacation World \<Rightarrow> (FileVacation, FileVacation) outcome" where
  "addVacation now z vacation img w =
     (case validate (validateSync_file vacation) of
        Inl e \<Rightarrow> (Inl e, w)
      | Inr u \<Rightarrow>
          let today = setHours0 z now;
              start = map_option (setHours0 z) (startDate vacation)
          in if date_lt start (Some today)
             then (Inl (ValidationError ''Start date cannot be in the past.''), w)
             else if date_lt (endDate vacation) (startDate vacation)
             then (Inl (ValidationError ''End date must be after start date.''), w)
             else
               let (vacation1, w1) =
                     (case img of
                        None \<Rightarrow> (vacation, w)
                      | Some file \<Rightarrow>
                          (let (name, w0) = fileSaver_add file w
                           in (vacation\<lparr>imageName := Some name\<rparr>, w0)))
               in (case save vacation1 w1 of
                     Inl e \<Rightarrow> (Inl e, w1)
                   | Inr (saved, w2) \<Rightarrow> (Inr saved, w2)))"

text \<open>\<open>getOneVacation\<close> and the private \<open>getImageName\<close>.\<close>

definition getOneVacation ::
  "objectId \<Rightarrow> ('a VacationDoc_scheme) World \<Rightarrow> ('a VacationDoc_scheme, 'a VacationDoc_scheme) outcome" where
  "getOneVacation i w =
     (case findById i w of
        (Inl e, w1) \<Rightarrow> (Inl e, w1)
      | (Inr None, w1) \<Rightarrow> (Inl (ResourceNotFound i), w1)
      | (Inr (Some vacation), w1) \<Rightarrow> (Inr vacation, w1))"

definition getImageName :: "objectId \<Rightarrow> FileVacation World \<Rightarrow> (string option, FileVacation) outcome" where
  "getImageName i w =
     (case getOneVacation i w of
        (Inl e, w1) \<Rightarrow> (Inl e, w1)
      | (Inr vacation, w1) \<Rightarrow> (Inr (imageName vacation), w1))"

text \<open>
  \<open>{ $set: updateData }\<close>, where \<open>updateData\<close> is \<open>vacation.toObject()\<close> without
  \<open>likedUserIds\<close>: every field the new document has overwrites the stored one.
\<close>

definition overlay :: "'a option \<Rightarrow> 'a option \<Rightarrow> 'a option" where
  "overlay new old = (case new of None \<Rightarrow> old | Some x \<Rightarrow> Some x)"

definition set_updateData :: "FileVacation \<Rightarrow> FileVacation \<Rightarrow> FileVacation" where
  "set_updateData vacation stored =
     stored\<lparr>destination := overlay (destination vacation) (destination stored),
            description := overlay (description vacation) (description stored),
            startDate := overlay (startDate vacation) (startDate stored),
            endDate := overlay (endDate vacation) (endDate stored),
            price := overlay (price vacation) (price stored),
            imageName := overlay (imageName vacation) (imageName stored)\<rparr>"

definition findByIdAndUpdate_set ::
  "FileVacation \<Rightarrow> FileVacation World \<Rightarrow> (FileVacation option, FileVacation) outcome" where
  "findByIdAndUpdate_set vacation w =
     (if \<not> is_objectId (v_id vacation) then (Inl (LibraryError (cast_message (v_id vacation))), w)
      else case find (\<lambda>d. v_id d = v_id vacation) (vacations w) of
             None \<Rightarrow> (Inr None, w)
           | Some stored \<Rightarrow>
               (Inr (Some (set_updateData vacation stored)),
                log_effect (UpdateRecord (v_id vacation))
                  (w\<lparr>vacations := modify (v_id vacation) (set_updateData vacation) v_id (vacations w)\<rparr>)))"

definition updateVacation ::
  "FileVacation \<Rightarrow> UploadedFile option \<Rightarrow> FileVacation World \<Rightarrow> (FileVacation, FileVacation) outcome" where
  "updateVacation vacation img w =
     (case validate (validateSync_file vacation) of
        Inl e \<Rightarrow> (Inl e, w)
      | Inr u \<Rightarrow>
          if date_lt (endDate vacation) (startDate vacation)
          then (Inl (ValidationError ''End date must be after start date.''), w)
          else
            let step =
                  (case img of
                     None \<Rightarrow> (Inr vacation, w)
                   | Some file \<Rightarrow>
                       (case getImageName (v_id vacation) w of
                          (Inl e, w0) \<Rightarrow> (Inl e, w0)
                        | (Inr oldImageName, w0) \<Rightarrow>
                            (let (name, w1) = fileSaver_update oldImageName file w0
                             in (Inr (vacation\<lparr>imageName := Some name\<rparr>), w1))))
            in (case step of
                  (Inl e, w1) \<Rightarrow> (Inl e, w1)
                | (Inr vacation1, w1) \<Rightarrow>
                    (case findByIdAndUpdate_set vacation1 w1 of
                       (Inl e, w2) \<Rightarrow> (Inl e, w2)
                     | (Inr None, w2) \<Rightarrow> (Inl (ResourceNotFound (v_id vacation1)), w2)
                     | (Inr (Some dbVacation), w2) \<Rightarrow> (Inr dbVacation, w2))))"


section \<open>The vacation service with Cloudinary images (backend/src/services/vacation-service.ts)\<close>



section \<open>Filtered, paginated retrieval\<close>

subsection \<open>utils/filter.ts, utils/filter-query.ts\<close>

text \<open>
  \<open>FilterType\<close> is the union of four string literals, at run time a string. The query
  object that \<open>buildVacationQuery\<close> returns is a list of field conditions in MongoDB's
  notation; \<open>now\<close> is the server clock (\<open>new Date()\<close>) when the query is built.
\<close>

type_synonym FilterType = string


datatype field = F_likedUserIds | F_startDate | F_endDate

datatype condition = Equals objectId | Lte date | Gte date | Gt date

type_synonym query = "(field \<times> condition) list"

definition buildVacationQuery :: "date \<Rightarrow> FilterType \<Rightarrow> objectId option \<Rightarrow> query" where
  "buildVacationQuery now filter' userId =
     (if filter' = ''liked'' then
        (case userId of Some u \<Rightarrow> [(F_likedUserIds, Equals u)] | None \<Rightarrow> [])
      else if filter' = ''active'' then
        [(F_startDate, Lte now), (F_endDate, Gte now)]
      else if filter' = ''upcoming'' then
        [(F_startDate, Gt now)]
      else [])"

text \<open>
  What MongoDB does with such a query: a document matches when it meets every condition.
  A value given for an array field matches when the array contains it; a comparison
  operator matches a date that is present and compares so.
\<close>

fun compares :: "condition \<Rightarrow> date option \<Rightarrow> bool" where
  "compares (Lte t) (Some x) = (x \<le> t)"
| "compares (Gte t) (Some x) = (x \<ge> t)"
| "compares (Gt t) (Some x) = (x > t)"
| "compares c x = False"

fun meets :: "'a VacationDoc_scheme \<Rightarrow> field \<times> condition \<Rightarrow> bool" where
  "meets d (F_likedUserIds, Equals u) = (u \<in> set (likedUserIds d))"
| "meets d (F_likedUserIds, c) = False"
| "meets d (F_startDate, c) = compares c (startDate d)"
| "meets d (F_endDate, c) = compares c (endDate d)"

definition matches :: "query \<Rightarrow> 'a VacationDoc_scheme \<Rightarrow> bool" where
  "matches q d = list_all (meets d) q"

subsection \<open>\<open>getVacations\<close> of the service\<close>




subsection \<open>utils/vacation-serializer.ts\<close>

text \<open>
  A plain JavaScript object is a list of its own properties in insertion order;
  \<open>AList.update\<close> and \<open>AList.delete\<close> are property assignment and \<open>delete\<close>.
\<close>

datatype json =
  JBool bool
| JNumber rat
| JString jsstring
| JDate date
| JObjectId objectId
| JArray "json list"

type_synonym jsobject = "(string \<times> json) list"

definition property :: "string \<Rightarrow> ('a \<Rightarrow> json) \<Rightarrow> 'a option \<Rightarrow> jsobject" where
  "property name wrap value = (case value of None \<Rightarrow> [] | Some x \<Rightarrow> [(name, wrap x)])"

text \<open>
  \<open>vacation.toObject({ virtuals: true })\<close> on a document of the file schema: the fields
  that are set and the virtual \<open>imageUrl\<close>, which is \<open>appConfig.baseImageUrl\<close> followed by
  the image name (the text \<open>undefined\<close> when there is none).
\<close>

definition toObject :: "string \<Rightarrow> FileVacation \<Rightarrow> jsobject" where
  "toObject baseImageUrl vacation =
     [(''_id'', JObjectId (v_id vacation))]
   @ property ''destination'' JString (destination vacation)
   @ property ''description'' JString (description vacation)
   @ property ''startDate'' JDate (startDate vacation)
   @ property ''endDate'' JDate (endDate vacation)
   @ property ''price'' JNumber (price vacation)
   @ property ''imageName'' (\<lambda>n. JString (ascii n)) (imageName vacation)
   @ [(''likedUserIds'', JArray (map JObjectId (likedUserIds vacation)))]
   @ [(''imageUrl'', JString (ascii (baseImageUrl @ (case imageName vacation of None \<Rightarrow> ''undefined'' | Some n \<Rightarrow> n))))]"

text \<open>\<open>id.toString()\<close> of an element of \<open>likedUserIds\<close>.\<close>

fun id_toString :: "json \<Rightarrow> objectId" where
  "id_toString (JObjectId i) = i"
| "id_toString j = []"

text \<open>
  \<open>serializeVacation\<close>. The optional chaining \<open>likedUserIds?.some(...)\<close> yields
  \<open>undefined\<close> when the property is absent, and a property whose value is \<open>undefined\<close>
  is left out of the JSON response: it is not added here.
\<close>

definition serializeVacation :: "string \<Rightarrow> FileVacation \<Rightarrow> objectId \<Rightarrow> jsobject" where
  "serializeVacation baseImageUrl vacation userId =
     (let vacationObj = toObject baseImageUrl vacation;
          likedByMe = (case map_of vacationObj ''likedUserIds'' of
                         Some (JArray ids) \<Rightarrow> Some (JBool (list_ex (\<lambda>i. id_toString i = userId) ids))
                       | _ \<Rightarrow> None);
          likesCount = (case map_of vacationObj ''likedUserIds'' of
                          Some (JArray ids) \<Rightarrow> JNumber (of_nat (length ids))
                        | _ \<Rightarrow> JNumber 0);
          v_id_string = JString (ascii (v_id vacation));
          stripped = AList.delete ''likedUserIds'' vacationObj;
          with_id = AList.update ''_id'' v_id_string stripped;
          with_liked = (case likedByMe of None \<Rightarrow> with_id | Some b \<Rightarrow> AList.update ''likedByMe'' b with_id)
      in AList.update ''likesCount'' likesCount with_liked)"


subsection \<open>The report (\<open>generateVacationsReportCSV\<close>)\<close>

text \<open>\<open>String(n)\<close> for a natural number: its decimal digits.\<close>

fun decimal :: "nat \<Rightarrow> jsstring" where
  "decimal n = (if n < 10 then [of_nat (48 + n)] else decimal (n div 10) @ [of_nat (48 + n mod 10)])"

declare decimal.simps [simp del]

text \<open>\<open>String(v.destination)\<close>, and \<open>.replace(/"/g, '""')\<close>: code unit 34 is the double quote.\<close>

definition String_of :: "jsstring option \<Rightarrow> jsstring" where
  "String_of s = (case s of None \<Rightarrow> ascii ''undefined'' | Some x \<Rightarrow> x)"

definition replace_quotes :: "jsstring \<Rightarrow> jsstring" where
  "replace_quotes s = concat (map (\<lambda>c. if c = 34 then [34, 34] else [c]) s)"

definition csv_row :: "'a VacationDoc_scheme \<Rightarrow> jsstring" where
  "csv_row v =
     (let destination = [34] @ replace_quotes (String_of (destination v)) @ [34];
          likes = length (likedUserIds v)
      in destination @ [44] @ decimal likes)"

definition generateVacationsReportCSV :: "('a VacationDoc_scheme) World \<Rightarrow> jsstring" where
  "generateVacationsReportCSV w =
     (let header = ascii ''destination,likes'';
          rows = map csv_row (vacations w);
          csv = join [10] (header # rows)
      in [0xFEFF] @ csv)"

section \<open>Pagination parameters (utils/pagination.ts)\<close>

subsection \<open>\<open>Number(value)\<close>\<close>

text \<open>
  A JavaScript number is NaN, an infinity or a finite value. \<open>Number(undefined)\<close> is NaN;
  \<open>Number\<close> of a string follows the StringNumericLiteral grammar of ECMAScript: white
  space around the literal is dropped, the empty string is 0, then comes a signed decimal
  literal (digits, an optional fraction, an optional exponent, or \<open>Infinity\<close>) or an
  unsigned \<open>0x\<close>, \<open>0o\<close> or \<open>0b\<close> integer; anything else is NaN. The exact value of the
  literal is then rounded to a double: the rounding is the parameter \<open>r64\<close>, so that what
  is proved holds for every rounding.
\<close>

datatype jsnum = NaN | PosInfinity | NegInfinity | Finite rat

definition is_digit :: "16 word \<Rightarrow> bool" where
  "is_digit c = (48 \<le> c \<and> c \<le> 57)"

definition digit_value :: "16 word \<Rightarrow> nat" where
  "digit_value c =
     (if is_digit c then unat c - 48
      else if 97 \<le> c \<and> c \<le> 122 then unat c - 87
      else if 65 \<le> c \<and> c \<le> 90 then unat c - 55
      else 36)"

definition digits_value :: "nat \<Rightarrow> jsstring \<Rightarrow> nat" where
  "digits_value base ds = foldl (\<lambda>a c. base * a + digit_value c) 0 ds"

definition is_space :: "16 word \<Rightarrow> bool" where
  "is_space c =
     (c \<in> set [0x9, 0xA, 0xB, 0xC, 0xD, 0x20, 0xA0, 0x1680, 0x2028, 0x2029, 0x202F, 0x205F, 0x3000, 0xFEFF]
      \<or> (0x2000 \<le> c \<and> c \<le> 0x200A))"

definition trim :: "jsstring \<Rightarrow> jsstring" where
  "trim s = rev (dropWhile is_space (rev (dropWhile is_space s)))"

fun strip_sign :: "jsstring \<Rightarrow> bool \<times> jsstring" where
  "strip_sign [] = (False, [])"
| "strip_sign (c # cs) = (if c = 43 then (False, cs) else if c = 45 then (True, cs) else (False, c # cs))"

fun after_dot :: "jsstring \<Rightarrow> jsstring option" where
  "after_dot [] = None"
| "after_dot (c # cs) = (if c = 46 then Some cs else None)"

fun parse_exponent :: "jsstring \<Rightarrow> int option" where
  "parse_exponent [] = Some 0"
| "parse_exponent (c # cs) =
     (if c = 101 \<or> c = 69 then
        (let (negative, ds) = strip_sign cs
         in if ds \<noteq> [] \<and> list_all is_digit ds
            then Some (if negative then - int (digits_value 10 ds) else int (digits_value 10 ds))
            else None)
      else None)"

definition scale10 :: "rat \<Rightarrow> int \<Rightarrow> rat" where
  "scale10 x e = (if 0 \<le> e then x * 10 ^ nat e else x / 10 ^ nat (- e))"

definition parse_unsigned :: "jsstring \<Rightarrow> rat option" where
  "parse_unsigned s =
     (let whole = takeWhile is_digit s;
          rest = dropWhile is_digit s;
          fraction = (case after_dot rest of None \<Rightarrow> [] | Some t \<Rightarrow> takeWhile is_digit t);
          tail = (case after_dot rest of None \<Rightarrow> rest | Some t \<Rightarrow> dropWhile is_digit t)
      in if whole = [] \<and> fraction = [] then None
         else case parse_exponent tail of
                None \<Rightarrow> None
              | Some e \<Rightarrow>
                  Some (scale10 (of_nat (digits_value 10 whole)
                                 + of_nat (digits_value 10 fraction) / 10 ^ length fraction) e))"

definition StrDecimalLiteral :: "(rat \<Rightarrow> jsnum) \<Rightarrow> jsstring \<Rightarrow> jsnum" where
  "StrDecimalLiteral r64 s =
     (let (negative, body) = strip_sign s
      in if body = ascii ''Infinity'' then (if negative then NegInfinity else PosInfinity)
         else case parse_unsigned body of
                None \<Rightarrow> NaN
              | Some q \<Rightarrow> r64 (if negative then - q else q))"

fun radix_prefix :: "jsstring \<Rightarrow> (nat \<times> jsstring) option" where
  "radix_prefix (z # x # rest) =
     (if z \<noteq> 48 then None
      else if x = 120 \<or> x = 88 then Some (16, rest)
      else if x = 111 \<or> x = 79 then Some (8, rest)
      else if x = 98 \<or> x = 66 then Some (2, rest)
      else None)"
| "radix_prefix s = None"

definition StringToNumber :: "(rat \<Rightarrow> jsnum) \<Rightarrow> jsstring \<Rightarrow> jsnum" where
  "StringToNumber r64 s =
     (let t = trim s
      in if t = [] then Finite 0
         else case radix_prefix t of
                Some (base, ds) \<Rightarrow>
                  (if ds \<noteq> [] \<and> list_all (\<lambda>c. digit_value c < base) ds
                   then r64 (of_nat (digits_value base ds)) else NaN)
              | None \<Rightarrow> StrDecimalLiteral r64 t)"

definition Number :: "(rat \<Rightarrow> jsnum) \<Rightarrow> jsstring option \<Rightarrow> jsnum" where
  "Number r64 value = (case value of None \<Rightarrow> NaN | Some s \<Rightarrow> StringToNumber r64 s)"

subsection \<open>\<open>parsePage\<close>, \<open>parsePageSize\<close>\<close>

text \<open>\<open>Number.isInteger(x) && x > 0\<close>.\<close>

definition is_positive_integer :: "jsnum \<Rightarrow> bool" where
  "is_positive_integer x = (case x of Finite q \<Rightarrow> q = of_int \<lfloor>q\<rfloor> \<and> 0 < q | _ \<Rightarrow> False)"

text \<open>A number that passed this test, as a natural number.\<close>

definition as_nat :: "jsnum \<Rightarrow> nat" where
  "as_nat x = (case x of Finite q \<Rightarrow> nat \<lfloor>q\<rfloor> | _ \<Rightarrow> 0)"

definition parsePage :: "(rat \<Rightarrow> jsnum) \<Rightarrow> jsstring option \<Rightarrow> nat" where
  "parsePage r64 value =
     (let page = Number r64 value
      in if is_positive_integer page then as_nat page else 1)"

definition parsePageSize :: "(rat \<Rightarrow> jsnum) \<Rightarrow> jsstring option \<Rightarrow> nat" where
  "parsePageSize r64 value =
     (let size' = Number r64 value
      in if is_positive_integer size' then as_nat size' else 9)"

section \<open>The list endpoint (\<open>getVacations\<close> of the controller)\<close>







section \<open>Users, tokens and the guarded routes\<close>

subsection \<open>models/user-model.ts\<close>

record UserDoc =
  u_id :: objectId
  firstName :: "jsstring option"
  lastName :: "jsstring option"
  email :: "jsstring option"
  password :: "jsstring option"
  roleId :: "int option"

definition validate_name :: "jsstring option \<Rightarrow> string \<Rightarrow> string \<Rightarrow> string \<Rightarrow> string list" where
  "validate_name value missing too_short too_long =
     (case value of
        None \<Rightarrow> [missing]
      | Some s \<Rightarrow> (if s = [] then [missing]
                  else (if length s < 2 then [too_short] else [])
                     @ (if 50 < length s then [too_long] else [])))"

text \<open>
  The pattern \<open>/^\S+@\S+\.\S+$/\<close>: no white space anywhere, and an \<open>@\<close> (code unit 64)
  with something before it, followed later, but not at once and not at the very end, by
  a dot (code unit 46).
\<close>

definition email_format :: "jsstring \<Rightarrow> bool" where
  "email_format s =
     (list_all (\<lambda>c. \<not> is_space c) s
      \<and> list_ex (\<lambda>i. s ! i = 64 \<and> list_ex (\<lambda>j. s ! j = 46) [i + 2 ..< length s - 1]) [1 ..< length s])"

definition validate_email :: "jsstring option \<Rightarrow> string list" where
  "validate_email value =
     (case value of
        None \<Rightarrow> [''Missing email.'']
      | Some s \<Rightarrow> (if s = [] then [''Missing email.'']
                  else if email_format s then [] else [''Invalid email format.'']))"

definition validate_password :: "jsstring option \<Rightarrow> string list" where
  "validate_password value =
     (case value of
        None \<Rightarrow> [''Missing password.'']
      | Some s \<Rightarrow> (if s = [] then [''Missing password.'']
                  else (if length s < 4 then [''Password must be at least 4 characters long.''] else [])
                     @ (if 128 < length s then [''Password too long.''] else [])))"

definition validate_role :: "int option \<Rightarrow> string list" where
  "validate_role value =
     (case value of
        None \<Rightarrow> []
      | Some r \<Rightarrow> (if r \<in> set [role_number Admin, role_number User] then []
                  else [''`roleId` is not a valid enum value.'']))"

definition validateSync_user :: "UserDoc \<Rightarrow> string list" where
  "validateSync_user u =
     validate_name (firstName u) ''Missing first name.'' ''First name too short.'' ''First name too long.''
   @ validate_name (lastName u) ''Missing last name.'' ''Last name too short.'' ''Last name too long.''
   @ validate_email (email u)
   @ validate_password (password u)
   @ validate_role (roleId u)"

subsection \<open>\<open>register\<close> (4-services/user-service.ts)\<close>

text \<open>
  The \<open>users\<close> collection is a list of documents. \<open>cyber.hash\<close> and the signing of the
  token are parameters. \<open>user.save()\<close> validates the document it is about to insert and
  refuses a taken \<open>_id\<close>.
\<close>

definition save_user :: "UserDoc \<Rightarrow> UserDoc list \<Rightarrow> error + (UserDoc \<times> UserDoc list)" where
  "save_user u users =
     (if validateSync_user u \<noteq> [] then Inl (LibraryError (join '' '' (validateSync_user u)))
      else if u_id u \<in> u_id ` set users then Inl (LibraryError ''E11000 duplicate key error'')
      else Inr (u, users @ [u]))"

definition register ::
  "(jsstring \<Rightarrow> jsstring) \<Rightarrow> (UserDoc \<Rightarrow> string) \<Rightarrow> UserDoc \<Rightarrow> UserDoc list \<Rightarrow> (error + string) \<times> UserDoc list" where
  "register hash generateToken user users =
     (case validate (validateSync_user user) of
        Inl e \<Rightarrow> (Inl e, users)
      | Inr u \<Rightarrow>
          (case password user of
             None \<Rightarrow> (Inl (ValidationError ''Password is required''), users)
           | Some plain \<Rightarrow>
               if plain = [] then (Inl (ValidationError ''Password is required''), users)
               else
                 let count = length (filter (\<lambda>d. email d = email user) users)
                 in if 0 < count then (Inl (ValidationError ''Email already taken''), users)
                    else
                      let user1 = user\<lparr>roleId := Some (role_number User)\<rparr>;
                          user2 = user1\<lparr>password := Some (hash plain)\<rparr>
                      in (case save_user user2 users of
                            Inl e \<Rightarrow> (Inl e, users)
                          | Inr (dbUser, users') \<Rightarrow> (Inr (generateToken dbUser), users'))))"

subsection \<open>utils/cyber.ts, middleware/security-middleware.ts, middleware/role-middleware.ts\<close>

text \<open>
  A request carries its \<open>Authorization\<close> header and the \<open>:_id\<close> of the route.
  \<open>jwt.verify\<close> is a parameter: the user object inside a token that is authentic and not
  expired.
\<close>

record Request =
  authorization :: "string option"
  params_id :: objectId

definition decodeToken :: "(string \<Rightarrow> UserDoc option) \<Rightarrow> string option \<Rightarrow> error + UserDoc" where
  "decodeToken jwt_verify token =
     (case token of
        None \<Rightarrow> Inl (AuthorizationError ''Token missing'')
      | Some t \<Rightarrow>
          if t = [] then Inl (AuthorizationError ''Token missing'')
          else (case jwt_verify t of
                  None \<Rightarrow> Inl (AuthorizationError ''Invalid or expired token'')
                | Some user \<Rightarrow> Inr user))"

definition verifyToken :: "(string \<Rightarrow> UserDoc option) \<Rightarrow> Request \<Rightarrow> error + UserDoc" where
  "verifyToken jwt_verify request =
     (let auth = (case authorization request of None \<Rightarrow> [] | Some a \<Rightarrow> a);
          token = (if take 7 auth = ''Bearer '' then Some (drop 7 auth) else None)
      in decodeToken jwt_verify token)"

definition verifyAdmin :: "UserDoc \<Rightarrow> error + unit" where
  "verifyAdmin user =
     (if roleId user = Some (role_number Admin) then Inr ()
      else Inl (ForbiddenError ''You are not authorized.''))"

definition preventAdminLike :: "UserDoc \<Rightarrow> error + unit" where
  "preventAdminLike user =
     (if roleId user = Some (role_number Admin)
      then Inl (ForbiddenError ''Admin cannot like vacations.'')
      else Inr ())"

subsection \<open>\<open>likeVacation\<close>, \<open>unlikeVacation\<close> of the service\<close>

text \<open>\<open>$addToSet\<close> and \<open>$pull\<close> on the array \<open>likedUserIds\<close>.\<close>

definition addToSet :: "objectId \<Rightarrow> objectId list \<Rightarrow> objectId list" where
  "addToSet u ids = (if u \<in> set ids then ids else ids @ [u])"

definition pull :: "objectId \<Rightarrow> objectId list \<Rightarrow> objectId list" where
  "pull u ids = removeAll u ids"

definition update_likes ::
  "(objectId list \<Rightarrow> objectId list) \<Rightarrow> objectId \<Rightarrow> ('a VacationDoc_scheme) World \<Rightarrow>
   ('a VacationDoc_scheme, 'a VacationDoc_scheme) outcome" where
  "update_likes f vacationId w =
     (if \<not> is_objectId vacationId then (Inl (LibraryError (cast_message vacationId)), w)
      else case find (\<lambda>d. v_id d = vacationId) (vacations w) of
             None \<Rightarrow> (Inl (ResourceNotFound vacationId), w)
           | Some d \<Rightarrow>
               (Inr (d\<lparr>likedUserIds := f (likedUserIds d)\<rparr>),
                log_effect (UpdateRecord vacationId)
                  (w\<lparr>vacations := modify vacationId (\<lambda>d. d\<lparr>likedUserIds := f (likedUserIds d)\<rparr>) v_id (vacations w)\<rparr>)))"

definition likeVacation ::
  "objectId \<Rightarrow> objectId \<Rightarrow> ('a VacationDoc_scheme) World \<Rightarrow> ('a VacationDoc_scheme, 'a VacationDoc_scheme) outcome" where
  "likeVacation vacationId userId w = update_likes (addToSet userId) vacationId w"

definition unlikeVacation ::
  "objectId \<Rightarrow> objectId \<Rightarrow> ('a VacationDoc_scheme) World \<Rightarrow> ('a VacationDoc_scheme, 'a VacationDoc_scheme) outcome" where
  "unlikeVacation vacationId userId w = update_likes (pull userId) vacationId w"

subsection \<open>The routes (5-controllers/vacation-controller.ts, 6-middleware/error-middleware.ts)\<close>

datatype response_body = Json jsobject | Message string

record Response =
  status :: nat
  body :: response_body

text \<open>\<open>catchAll\<close>: the status of the error, or 500; a crash hides its message in production.\<close>

definition catchAll :: "bool \<Rightarrow> error \<Rightarrow> Response" where
  "catchAll isProduction err =
     (let status' = (case error_status err of None \<Rightarrow> status_number InternalServerError
                                          | Some c \<Rightarrow> status_number c);
          isCrash = (500 \<le> status' \<and> status' \<le> 599);
          message = (if isProduction \<and> isCrash then ''Some error, please try again.'' else error_message err)
      in \<lparr>status = status', body = Message message\<rparr>)"

text \<open>
  \<open>POST /api/vacations/:_id/like\<close> and \<open>DELETE /api/vacations/:_id/like\<close>: the chain
  \<open>verifyToken\<close>, \<open>preventAdminLike\<close>, handler. A middleware that calls \<open>next(err)\<close> ends
  the chain, and \<open>catchAll\<close> answers; an error thrown by the service is taken to reach
  \<open>catchAll\<close> too. The two handlers differ in the service function only, which is the first
  parameter here.
\<close>

definition like_route ::
  "(objectId \<Rightarrow> objectId \<Rightarrow> FileVacation World \<Rightarrow> (FileVacation, FileVacation) outcome) \<Rightarrow>
   (string \<Rightarrow> UserDoc option) \<Rightarrow> bool \<Rightarrow> string \<Rightarrow> Request \<Rightarrow> FileVacation World \<Rightarrow>
   Response \<times> FileVacation World" where
  "like_route service jwt_verify isProduction baseImageUrl request w =
     (case verifyToken jwt_verify request of
        Inl err \<Rightarrow> (catchAll isProduction err, w)
      | Inr user \<Rightarrow>
          (case preventAdminLike user of
             Inl err \<Rightarrow> (catchAll isProduction err, w)
           | Inr ok \<Rightarrow>
               (case service (params_id request) (u_id user) w of
                  (Inl err, w') \<Rightarrow> (catchAll isProduction err, w')
                | (Inr v, w') \<Rightarrow>
                    (\<lparr>status = status_number OK, body = Json (serializeVacation baseImageUrl v (u_id user))\<rparr>, w'))))"

definition post_like ::
  "(string \<Rightarrow> UserDoc option) \<Rightarrow> bool \<Rightarrow> string \<Rightarrow> Request \<Rightarrow> FileVacation World \<Rightarrow> Response \<times> FileVacation World" where
  "post_like = like_route likeVacation"

definition delete_like ::
  "(string \<Rightarrow> UserDoc option) \<Rightarrow> bool \<Rightarrow> string \<Rightarrow> Request \<Rightarrow> FileVacation World \<Rightarrow> Response \<times> FileVacation World" where
  "delete_like = like_route unlikeVacation"

text \<open>
  \<open>POST /api/vacations\<close>: the chain \<open>verifyToken\<close>, \<open>verifyAdmin\<close>, \<open>preventXssAttack\<close>,
  handler. The handler builds the document with \<open>new VacationModel(request.body)\<close>, which
  takes every schema field the body has, \<open>likedUserIds\<close> included; the request is given
  here by that document. \<open>preventXssAttack\<close> passes the string fields of the body through
  \<open>striptags\<close>, a parameter; it is applied to the two text fields, the other fields
  (identifiers, dates, the price) holding no markup.
\<close>

definition preventXssAttack :: "(jsstring \<Rightarrow> jsstring) \<Rightarrow> FileVacation \<Rightarrow> FileVacation" where
  "preventXssAttack striptags doc =
     doc\<lparr>destination := map_option striptags (destination doc),
         description := map_option striptags (description doc)\<rparr>"

definition post_vacation ::
  "(string \<Rightarrow> UserDoc option) \<Rightarrow> (jsstring \<Rightarrow> jsstring) \<Rightarrow> bool \<Rightarrow> string \<Rightarrow> date \<Rightarrow> Zone \<Rightarrow>
   Request \<Rightarrow> FileVacation \<Rightarrow> UploadedFile option \<Rightarrow> FileVacation World \<Rightarrow> Response \<times> FileVacation World" where
  "post_vacation jwt_verify striptags isProduction baseImageUrl now z request doc img w =
     (case verifyToken jwt_verify request of
        Inl err \<Rightarrow> (catchAll isProduction err, w)
      | Inr user \<Rightarrow>
          (case verifyAdmin user of
             Inl err \<Rightarrow> (catchAll isProduction err, w)
           | Inr ok \<Rightarrow>
               (case addVacation now z (preventXssAttack striptags doc) img w of
                  (Inl err, w') \<Rightarrow> (catchAll isProduction err, w')
                | (Inr dbVacation, w') \<Rightarrow>
                    (\<lparr>status = status_number Created, body = Json (toObject baseImageUrl dbVacation)\<rparr>, w'))))"

text \<open>
  A token store for examples: the token \<open>tok-adm\<close> is that of an administrator, the token
  \<open>tok-usr\<close> that of a user, and nothing else verifies.
\<close>

definition example_tokens :: "string \<Rightarrow> UserDoc option" where
  "example_tokens t =
     (if t = ''tok-adm'' then
        Some \<lparr>u_id = ''65a000000000000000000001'', firstName = Some (ascii ''Ada''),
              lastName = Some (ascii ''Min''), email = Some (ascii ''ada@example.com''),
              password = None, roleId = Some (role_number Admin)\<rparr>
      else if t = ''tok-usr'' then
        Some \<lparr>u_id = ''65a000000000000000000002'', firstName = Some (ascii ''Uri''),
              lastName = Some (ascii ''Tal''), email = Some (ascii ''uri@example.com''),
              password = None, roleId = Some (role_number User)\<rparr>
      else None)"

text \<open>A sequence of like and unlike requests, served one after the other.\<close>

datatype like_request = PostLike Request | DeleteLike Request

fun serve ::
  "(string \<Rightarrow> UserDoc option) \<Rightarrow> bool \<Rightarrow> string \<Rightarrow> like_request \<Rightarrow> FileVacation World \<Rightarrow> FileVacation World" where
  "serve jwt_verify isProduction baseImageUrl (PostLike request) w =
     snd (post_like jwt_verify isProduction baseImageUrl request w)"
| "serve jwt_verify isProduction baseImageUrl (DeleteLike request) w =
     snd (delete_like jwt_verify isProduction baseImageUrl request w)"

definition serve_all ::
  "(string \<Rightarrow> UserDoc option) \<Rightarrow> bool \<Rightarrow> string \<Rightarrow> like_request list \<Rightarrow> FileVacation World \<Rightarrow> FileVacation World" where
  "serve_all jwt_verify isProduction baseImageUrl requests w =
     foldl (\<lambda>w r. serve jwt_verify isProduction baseImageUrl r w) w requests"

text \<open>No liking set of the world holds an identifier from the given set.\<close>

definition liked_by_none_of :: "objectId set \<Rightarrow> ('a VacationDoc_scheme) World \<Rightarrow> bool" where
  "liked_by_none_of ids w = (\<forall>v \<in> set (vacations w). set (likedUserIds v) \<inter> ids = {})"

section \<open>From a response to the client store\<close>

text \<open>
  The client reads a vacation from the JSON body of a response: \<open>_id\<close> as a string,
  \<open>likesCount\<close> and \<open>likedByMe\<close> when the body has them. The bodies of
  \<open>POST /api/vacations\<close> and \<open>PATCH /api/vacations/:_id\<close> are the stored document as it is
  (\<open>response.json(dbVacation)\<close>), not a serialised vacation: they have neither property.
  \<open>VacationService.addVacation\<close> dispatches such a body to the reducer \<open>addVacation\<close>.
\<close>

definition to_ascii :: "jsstring \<Rightarrow> string" where
  "to_ascii s = map (\<lambda>c. char_of (unat c)) s"

definition body_object :: "Response \<Rightarrow> jsobject" where
  "body_object response = (case body response of Json obj \<Rightarrow> obj | Message m \<Rightarrow> [])"

definition fromJson :: "jsobject \<Rightarrow> ClientVacation" where
  "fromJson obj =
     \<lparr>cv_id = (case map_of obj ''_id'' of
                 Some (JObjectId i) \<Rightarrow> i
               | Some (JString s) \<Rightarrow> to_ascii s
               | _ \<Rightarrow> []),
      likesCount = (case map_of obj ''likesCount'' of Some (JNumber q) \<Rightarrow> Some \<lfloor>q\<rfloor> | _ \<Rightarrow> None),
      likedByMe = (case map_of obj ''likedByMe'' of Some (JBool b) \<Rightarrow> Some b | _ \<Rightarrow> None)\<rparr>"

section \<open>Decimal digits and \<open>Number\<close>\<close>

lemma small_digit: "d < 10 \<Longrightarrow> d \<in> {0, 1, 2, 3, 4, 5, 6, 7, 8, 9 :: nat}"
  by auto

lemma digit_char:
  assumes "d < 10"
  shows "is_digit (48 + of_nat d)" and "digit_value (48 + of_nat d) = d"
  using small_digit [OF assms]
  by (auto simp: is_digit_def digit_value_def is_space_def)

lemma decimal_digits: "list_all is_digit (decimal n)"
proof (induction n rule: decimal.induct)
  case (1 n)
  show ?case
  proof (cases "n < 10")
    case True
    then show ?thesis
      by (subst decimal.simps) (simp add: digit_char)
  next
    case False
    then show ?thesis
      using 1 by (subst decimal.simps) (simp add: digit_char)
  qed
qed

lemma decimal_not_Nil: "decimal n \<noteq> []"
  by (subst decimal.simps) simp

lemma digits_value_snoc: "digits_value b (ds @ [c]) = b * digits_value b ds + digit_value c"
  by (simp add: digits_value_def)

lemma digits_value_decimal: "digits_value 10 (decimal n) = n"
proof (induction n rule: decimal.induct)
  case (1 n)
  show ?case
  proof (cases "n < 10")
    case True
    then show ?thesis
      by (subst decimal.simps) (simp add: digits_value_def digit_char)
  next
    case False
    then show ?thesis
      using 1 by (subst decimal.simps) (simp add: digits_value_snoc digit_char)
  qed
qed

lemma digit_not_space: "is_digit c \<Longrightarrow> \<not> is_space c"
  by (auto simp: is_digit_def is_space_def word_le_nat_alt)

lemma dropWhile_none: "\<forall>x \<in> set xs. \<not> P x \<Longrightarrow> dropWhile P xs = xs"
  by (cases xs) auto

lemma trim_digits: "list_all is_digit s \<Longrightarrow> trim s = s"
  by (simp add: trim_def dropWhile_none digit_not_space list_all_iff)

lemma radix_prefix_digits: "list_all is_digit s \<Longrightarrow> radix_prefix s = None"
  by (induction s rule: radix_prefix.induct) (auto simp: is_digit_def)

lemma strip_sign_digits: "list_all is_digit s \<Longrightarrow> strip_sign s = (False, s)"
  by (cases s) (auto simp: is_digit_def)

lemma digits_not_Infinity: "list_all is_digit s \<Longrightarrow> s \<noteq> ascii ''Infinity''"
  by (auto simp: ascii_def is_digit_def)

lemma parse_unsigned_digits:
  "list_all is_digit s \<Longrightarrow> s \<noteq> [] \<Longrightarrow> parse_unsigned s = Some (of_nat (digits_value 10 s))"
proof -
  assume digits: "list_all is_digit s" and ne: "s \<noteq> []"
  have whole: "takeWhile is_digit s = s" and rest: "dropWhile is_digit s = []"
    using digits by (simp_all add: list_all_iff)
  show ?thesis
    using ne by (simp add: parse_unsigned_def Let_def whole rest scale10_def digits_value_def)
qed

lemma StringToNumber_decimal: "StringToNumber r64 (decimal n) = r64 (of_nat n)"
  using decimal_digits [of n] decimal_not_Nil [of n]
  by (simp add: StringToNumber_def trim_digits radix_prefix_digits StrDecimalLiteral_def
        strip_sign_digits digits_not_Infinity parse_unsigned_digits digits_value_decimal)

lemma positive_integer_of_nat: "is_positive_integer (Finite (of_nat n)) = (0 < n)"
  by (simp add: is_positive_integer_def)

lemma as_nat_positive_integer: "is_positive_integer x \<Longrightarrow> Finite (of_nat (as_nat x)) = x"
proof (cases x)
  case (Finite q)
  assume "is_positive_integer x"
  with Finite have q: "q = of_int \<lfloor>q\<rfloor>" "0 < q"
    by (simp_all add: is_positive_integer_def)
  then have "0 \<le> \<lfloor>q\<rfloor>" by simp
  then have "(of_nat (nat \<lfloor>q\<rfloor>) :: rat) = of_int \<lfloor>q\<rfloor>"
    by simp
  with q Finite show ?thesis by (simp add: as_nat_def)
qed (simp_all add: is_positive_integer_def)

lemma as_nat_positive: "is_positive_integer x \<Longrightarrow> 0 < as_nat x"
proof (cases x)
  case (Finite q)
  assume "is_positive_integer x"
  with Finite have q: "q = of_int \<lfloor>q\<rfloor>" "0 < q"
    by (simp_all add: is_positive_integer_def)
  then have "0 < \<lfloor>q\<rfloor>"
    by (metis of_int_0_less_iff)
  with Finite show ?thesis by (simp add: as_nat_def)
qed (simp_all add: is_positive_integer_def)





section \<open>Rollback of the optimistic like\<close>

lemma ClientVacation_eq_iff:
  "(r = (r' :: 'a ClientVacation_scheme))
     = (cv_id r = cv_id r' \<and> likesCount r = likesCount r' \<and> likedByMe r = likedByMe r'
        \<and> ClientVacation.more r = ClientVacation.more r')"
  by (auto intro: ClientVacation.equality)

lemma exactD: "exact_to_2_53 r \<Longrightarrow> \<bar>k\<bar> \<le> 9007199254740992 \<Longrightarrow> r k = k"
  by (simp add: exact_to_2_53_def)

lemma toggled_twice:
  assumes exact: "exact_to_2_53 r" and safe: "safe_count v"
  shows "(toggled r (toggled r v) = v) = consistent_likes v"
proof (cases "likesCount v")
  case None
  have "likesCount (toggled r (toggled r v)) \<noteq> None"
    by (simp add: toggled_def Let_def)
  with None show ?thesis
    by (auto simp: ClientVacation_eq_iff consistent_likes_def split: option.splits)
next
  case (Some n)
  with safe have n: "\<bar>n\<bar> < 9007199254740992"
    by (simp add: safe_count_def)
  show ?thesis
  proof (cases "likedByMe v")
    case None
    have "likedByMe (toggled r (toggled r v)) \<noteq> None"
      by (simp add: toggled_def Let_def)
    with None show ?thesis
      by (auto simp: ClientVacation_eq_iff consistent_likes_def)
  next
    case liked: (Some b)
    show ?thesis
    proof (cases b)
      case True
      have first: "r (n - 1) = n - 1"
        using n by (intro exactD [OF exact]) simp
      have second: "r (max 0 (n - 1) + 1) = max 0 (n - 1) + 1"
        using n by (intro exactD [OF exact]) simp
      show ?thesis
        using Some liked True first second
        by (auto simp: toggled_def Let_def js_not_def nullish_def ClientVacation_eq_iff
              consistent_likes_def max_def)
    next
      case False
      have first: "r (n + 1) = n + 1"
        using n by (intro exactD [OF exact]) simp
      have second: "r (max 0 (n + 1) - 1) = max 0 (n + 1) - 1"
        using n by (intro exactD [OF exact]) simp
      show ?thesis
        using Some liked False first second
        by (auto simp: toggled_def Let_def js_not_def nullish_def ClientVacation_eq_iff
              consistent_likes_def max_def)
    qed
  qed
qed

lemma toggleLikeOptimistic_toggled:
  "toggleLikeOptimistic r state i = map (\<lambda>v. if cv_id v \<noteq> i then v else toggled r v) state"
  by (simp add: toggleLikeOptimistic_def toggled_def)

lemma cv_id_toggled: "cv_id (toggled r v) = cv_id v"
  by (simp add: toggled_def Let_def)

lemma toggleLikeOptimistic_twice:
  assumes "exact_to_2_53 r"
  shows "\<forall>v \<in> set state. cv_id v = i \<longrightarrow> safe_count v \<Longrightarrow>
         (toggleLikeOptimistic r (toggleLikeOptimistic r state i) i = state)
           = (\<forall>v \<in> set state. cv_id v = i \<longrightarrow> consistent_likes v)"
proof (induction state)
  case Nil
  show ?case by (simp add: toggleLikeOptimistic_toggled)
next
  case (Cons v vs)
  then have tail: "(toggleLikeOptimistic r (toggleLikeOptimistic r vs i) i = vs)
                     = (\<forall>v \<in> set vs. cv_id v = i \<longrightarrow> consistent_likes v)"
    by simp
  show ?case
  proof (cases "cv_id v = i")
    case False
    with tail show ?thesis
      by (simp add: toggleLikeOptimistic_toggled)
  next
    case True
    with Cons.prems have "safe_count v" by simp
    from toggled_twice [OF assms this] tail True show ?thesis
      by (simp add: toggleLikeOptimistic_toggled cv_id_toggled)
  qed
qed

text \<open>
  C1, as stated, at a store the client holds. An administrator creates a vacation; the
  body of the answer is the stored document, without \<open>likesCount\<close> and \<open>likedByMe\<close>, and
  the reducer \<open>addVacation\<close> puts it into the store. The administrator's like of it fails
  (the server answers 403), and after the rollback \<open>likedByMe\<close> is \<open>false\<close> and \<open>likesCount\<close>
  is 0, where both were absent before the toggle.
\<close>

theorem toggle_rollback_counterexample:
  "addVacation_slice []
     (fromJson (body_object (fst (post_vacation example_tokens id False
        ''http://localhost:4001/api/vacations/images/'' 1762128000000 (fixed_zone 0)
        \<lparr>authorization = Some ''Bearer tok-adm'', params_id = []\<rparr>
        \<lparr>v_id = ''65b000000000000000000001'', destination = Some (ascii ''Paris''),
         description = Some (ascii ''City of light''), startDate = Some 1762128000000,
         endDate = Some 1762214400000, price = Some 500, likedUserIds = [], imageName = None\<rparr>
        None
        \<lparr>vacations = [], images = [], journal = [], cloud_up = True\<rparr>))))
     = [\<lparr>cv_id = ''65b000000000000000000001'', likesCount = None, likedByMe = None\<rparr>]
   \<and> status (fst (post_like example_tokens False ''http://localhost:4001/api/vacations/images/''
        \<lparr>authorization = Some ''Bearer tok-adm'', params_id = ''65b000000000000000000001''\<rparr>
        \<lparr>vacations =
           [\<lparr>v_id = ''65b000000000000000000001'', destination = Some (ascii ''Paris''),
             description = Some (ascii ''City of light''), startDate = Some 1762128000000,
             endDate = Some 1762214400000, price = Some 500, likedUserIds = [], imageName = None\<rparr>],
         images = [], journal = [InsertRecord ''65b000000000000000000001''], cloud_up = True\<rparr>)) = 403
   \<and> toggleLike id server_down
        [\<lparr>cv_id = ''65b000000000000000000001'', likesCount = None, likedByMe = None\<rparr>]
        ''65b000000000000000000001''
     = ([\<lparr>cv_id = ''65b000000000000000000001'', likesCount = Some 0, likedByMe = Some False\<rparr>], True)"
proof -
  have stored: "body_object (fst (post_vacation example_tokens id False
        ''http://localhost:4001/api/vacations/images/'' 1762128000000 (fixed_zone 0)
        \<lparr>authorization = Some ''Bearer tok-adm'', params_id = []\<rparr>
        \<lparr>v_id = ''65b000000000000000000001'', destination = Some (ascii ''Paris''),
         description = Some (ascii ''City of light''), startDate = Some 1762128000000,
         endDate = Some 1762214400000, price = Some 500, likedUserIds = [], imageName = None\<rparr>
        None
        \<lparr>vacations = [], images = [], journal = [], cloud_up = True\<rparr>))
     = [(''_id'', JObjectId ''65b000000000000000000001''), (''destination'', JString (ascii ''Paris'')),
        (''description'', JString (ascii ''City of light'')),
        (''startDate'', JDate 1762128000000), (''endDate'', JDate 1762214400000),
        (''price'', JNumber 500), (''likedUserIds'', JArray []),
        (''imageUrl'', JString (ascii ''http://localhost:4001/api/vacations/images/undefined''))]"
    by (simp add: post_vacation_def example_tokens_def verifyToken_def decodeToken_def verifyAdmin_def
          preventXssAttack_def addVacation_def validate_def validateSync_file_def
          validateSync_shared_def validate_id_def is_objectId_def is_hex_def validate_text_def
          validate_required_def validate_price_def date_lt_def setHours0_def day_start_def
          local_day_def fixed_zone_def msPerDay_def save_def log_effect_def toObject_def
          property_def ascii_def body_object_def)
  have rollback: "toggleLike id server_down
        [\<lparr>cv_id = ''65b000000000000000000001'', likesCount = None, likedByMe = None\<rparr>]
        ''65b000000000000000000001''
     = ([\<lparr>cv_id = ''65b000000000000000000001'', likesCount = Some 0, likedByMe = Some False\<rparr>], True)"
    by (simp add: toggleLike_def toggleLikeOptimistic_def wasLiked_def js_not_def nullish_def
          Let_def server_down_def)
  have refused: "status (fst (post_like example_tokens False ''http://localhost:4001/api/vacations/images/''
        \<lparr>authorization = Some ''Bearer tok-adm'', params_id = ''65b000000000000000000001''\<rparr>
        \<lparr>vacations =
           [\<lparr>v_id = ''65b000000000000000000001'', destination = Some (ascii ''Paris''),
             description = Some (ascii ''City of light''), startDate = Some 1762128000000,
             endDate = Some 1762214400000, price = Some 500, likedUserIds = [], imageName = None\<rparr>],
         images = [], journal = [InsertRecord ''65b000000000000000000001''], cloud_up = True\<rparr>)) = 403"
    by (simp add: post_like_def like_route_def example_tokens_def verifyToken_def decodeToken_def
          preventAdminLike_def catchAll_def)
  show ?thesis
    using rollback refused by (simp add: stored fromJson_def addVacation_slice_def)
qed

text \<open>
  C1, amended: when the server call of \<open>toggleLike\<close> fails, \<open>toggleLike\<close> signals the
  failure; and for a store in which every count of a vacation with the toggled id is
  below \<open>2^53\<close> in magnitude (where the sums the toggle forms are exact), the store after
  the rollback is the store before the toggle exactly when every vacation with the
  toggled id has both fields present, a count that is not negative, and a count of at
  least 1 if it is liked, as every vacation that the server serialises has.
\<close>

theorem toggleLike_rollback_restores:
  assumes "exact_to_2_53 round64"
    and "\<forall>v \<in> set state. cv_id v = i \<longrightarrow> safe_count v"
    and "server (if wasLiked state i then UnlikeCall else LikeCall) i = None"
  shows "snd (toggleLike round64 server state i)
       \<and> (fst (toggleLike round64 server state i) = state)
           = (\<forall>v \<in> set state. cv_id v = i \<longrightarrow> consistent_likes v)"
  using assms(3) toggleLikeOptimistic_twice [OF assms(1) assms(2)]
  by (simp add: toggleLike_def Let_def)

theorem toggleLike_rollback_restores_witness:
  "snd (toggleLike id server_down
          [\<lparr>cv_id = ''v1'', likesCount = Some 3, likedByMe = Some True\<rparr>,
           \<lparr>cv_id = ''v2'', likesCount = None, likedByMe = None\<rparr>] ''v1'')
   \<and> fst (toggleLike id server_down
          [\<lparr>cv_id = ''v1'', likesCount = Some 3, likedByMe = Some True\<rparr>,
           \<lparr>cv_id = ''v2'', likesCount = None, likedByMe = None\<rparr>] ''v1'')
       = [\<lparr>cv_id = ''v1'', likesCount = Some 3, likedByMe = Some True\<rparr>,
          \<lparr>cv_id = ''v2'', likesCount = None, likedByMe = None\<rparr>]"
proof -
  have exact: "exact_to_2_53 id"
    by (simp add: exact_to_2_53_def)
  have safe: "\<forall>v \<in> set [\<lparr>cv_id = ''v1'', likesCount = Some 3, likedByMe = Some True\<rparr>,
           \<lparr>cv_id = ''v2'', likesCount = None, likedByMe = None\<rparr>]. cv_id v = ''v1'' \<longrightarrow> safe_count v"
    by (simp add: safe_count_def)
  have fails: "server_down (if wasLiked [\<lparr>cv_id = ''v1'', likesCount = Some 3, likedByMe = Some True\<rparr>,
           \<lparr>cv_id = ''v2'', likesCount = None, likedByMe = None\<rparr>] ''v1'' then UnlikeCall else LikeCall) ''v1''
           = (None :: ClientVacation option)"
    by (simp add: server_down_def)
  from toggleLike_rollback_restores [where server = server_down, OF exact safe fails] show ?thesis
    by (simp add: consistent_likes_def)
qed

section \<open>Date rules of create and update\<close>















section \<open>The order of effects of delete\<close>






section \<open>Administrators and likes\<close>

lemma modify_likes_none_of:
  assumes "\<forall>v \<in> set ds. set (likedUserIds v) \<inter> ids = {}"
    and "\<And>xs. set xs \<inter> ids = {} \<Longrightarrow> set (f xs) \<inter> ids = {}"
  shows "\<forall>v \<in> set (modify i (\<lambda>d. d\<lparr>likedUserIds := f (likedUserIds d)\<rparr>) v_id ds).
           set (likedUserIds v) \<inter> ids = {}"
proof
  fix v
  assume "v \<in> set (modify i (\<lambda>d. d\<lparr>likedUserIds := f (likedUserIds d)\<rparr>) v_id ds)"
  then obtain d where d: "d \<in> set ds"
    and v: "v = (if v_id d = i then d\<lparr>likedUserIds := f (likedUserIds d)\<rparr> else d)"
    by (auto simp: modify_def)
  from d assms(1) have "set (likedUserIds d) \<inter> ids = {}"
    by blast
  with v assms(2) [of "likedUserIds d"] show "set (likedUserIds v) \<inter> ids = {}"
    by simp
qed

lemma update_likes_none_of:
  assumes "liked_by_none_of ids w"
    and "\<And>xs. set xs \<inter> ids = {} \<Longrightarrow> set (f xs) \<inter> ids = {}"
  shows "liked_by_none_of ids (snd (update_likes f i w))"
proof (cases "is_objectId i \<and> find (\<lambda>d. v_id d = i) (vacations w) \<noteq> None")
  case False
  with assms(1) show ?thesis
    by (auto simp: update_likes_def)
next
  case True
  then obtain d where d: "find (\<lambda>d. v_id d = i) (vacations w) = Some d" and valid: "is_objectId i"
    by auto
  from assms have "\<forall>v \<in> set (modify i (\<lambda>d. d\<lparr>likedUserIds := f (likedUserIds d)\<rparr>) v_id (vacations w)).
           set (likedUserIds v) \<inter> ids = {}"
    unfolding liked_by_none_of_def by (rule modify_likes_none_of)
  with d valid show ?thesis
    by (simp add: update_likes_def liked_by_none_of_def log_effect_def)
qed

lemma addToSet_none_of: "u \<notin> ids \<Longrightarrow> set xs \<inter> ids = {} \<Longrightarrow> set (addToSet u xs) \<inter> ids = {}"
  by (simp add: addToSet_def)

lemma pull_none_of: "set xs \<inter> ids = {} \<Longrightarrow> set (pull u xs) \<inter> ids = {}"
  by (auto simp: pull_def)

lemma like_route_rejects_admin:
  assumes "verifyToken jwt_verify request = Inr user" and "roleId user = Some (role_number Admin)"
  shows "like_route service jwt_verify isProduction base request w
           = (\<lparr>status = 403, body = Message ''Admin cannot like vacations.''\<rparr>, w)"
  using assms by (simp add: like_route_def preventAdminLike_def catchAll_def)

lemma like_route_none_of:
  assumes tokens: "\<forall>t user. jwt_verify t = Some user \<and> u_id user \<in> admins \<longrightarrow> roleId user = Some (role_number Admin)"
    and before: "liked_by_none_of admins w"
    and service: "service = likeVacation \<or> service = unlikeVacation"
  shows "liked_by_none_of admins (snd (like_route service jwt_verify isProduction base request w))"
proof (cases "verifyToken jwt_verify request")
  case (Inl err)
  with before show ?thesis by (simp add: like_route_def)
next
  case (Inr user)
  show ?thesis
  proof (cases "roleId user = Some (role_number Admin)")
    case True
    with Inr before show ?thesis
      by (simp add: like_route_rejects_admin)
  next
    case False
    from Inr obtain t where "jwt_verify t = Some user"
      by (auto simp: verifyToken_def decodeToken_def Let_def split: option.splits if_splits)
    with tokens False have user: "u_id user \<notin> admins"
      by blast
    have "liked_by_none_of admins (snd (service (params_id request) (u_id user) w))"
      using service before user
      by (auto simp: likeVacation_def unlikeVacation_def intro!: update_likes_none_of
            addToSet_none_of pull_none_of)
    with Inr False show ?thesis
      by (auto simp: like_route_def preventAdminLike_def split: prod.splits sum.splits)
  qed
qed

lemma serve_all_none_of:
  assumes "\<forall>t user. jwt_verify t = Some user \<and> u_id user \<in> admins \<longrightarrow> roleId user = Some (role_number Admin)"
  shows "liked_by_none_of admins w \<Longrightarrow>
         liked_by_none_of admins (serve_all jwt_verify isProduction base requests w)"
proof (induction requests arbitrary: w)
  case Nil
  then show ?case by (simp add: serve_all_def)
next
  case (Cons r rs)
  have step: "liked_by_none_of admins (serve jwt_verify isProduction base r w)"
    using like_route_none_of [OF assms Cons.prems]
    by (cases r) (simp_all add: post_like_def delete_like_def)
  have "serve_all jwt_verify isProduction base (r # rs) w
          = serve_all jwt_verify isProduction base rs (serve jwt_verify isProduction base r w)"
    by (simp add: serve_all_def)
  with Cons.IH [OF step] show ?case by simp
qed

text \<open>
  The guard of the like routes: a request whose token is that of a caller with the Admin
  role is answered 403 by \<open>POST /api/vacations/:_id/like\<close> and by
  \<open>DELETE /api/vacations/:_id/like\<close>, the service is not called and the world is
  unchanged; so like and unlike requests never put an administrator's identifier into a
  liking set.
\<close>

lemma like_routes_guard:
  "(verifyToken jwt_verify request = Inr user \<and> roleId user = Some (role_number Admin) \<longrightarrow>
      post_like jwt_verify isProduction base request w
        = (\<lparr>status = status_number Forbidden, body = Message ''Admin cannot like vacations.''\<rparr>, w)
      \<and> delete_like jwt_verify isProduction base request w
        = (\<lparr>status = status_number Forbidden, body = Message ''Admin cannot like vacations.''\<rparr>, w)
      \<and> preventAdminLike user = Inl (ForbiddenError ''Admin cannot like vacations.''))
   \<and> ((\<forall>t u. jwt_verify t = Some u \<and> u_id u \<in> admins \<longrightarrow> roleId u = Some (role_number Admin))
        \<and> liked_by_none_of admins w \<longrightarrow>
      liked_by_none_of admins (serve_all jwt_verify isProduction base requests w))"
  using like_route_rejects_admin [of jwt_verify request user likeVacation isProduction base w]
    like_route_rejects_admin [of jwt_verify request user unlikeVacation isProduction base w]
    serve_all_none_of [of jwt_verify admins w isProduction base requests]
  by (auto simp: post_like_def delete_like_def preventAdminLike_def)

text \<open>
  C4, at a failing input. The claim says that no vacation's liking set ever contains an
  administrator's identifier. The administrator \<open>65a000000000000000000001\<close> (token
  \<open>tok-adm\<close>, \<open>roleId = 1\<close>) posts a new vacation whose body lists that identifier in
  \<open>likedUserIds\<close>. The request passes \<open>verifyToken\<close> and \<open>verifyAdmin\<close>, \<open>addVacation\<close>
  saves the document as it is, the answer is 201, and the liking set of the stored vacation
  contains the administrator's identifier. The same body sent to \<open>updateVacation\<close> leaves
  the stored liking set as it was: \<open>updateVacation\<close> strips \<open>likedUserIds\<close>, \<open>addVacation\<close>
  does not. The administrator's like of the vacation is answered 403.
\<close>

theorem admin_liking_set_by_create:
  "post_vacation example_tokens id False ''http://localhost:4001/api/vacations/images/''
     1762128000000 (fixed_zone 0)
     \<lparr>authorization = Some ''Bearer tok-adm'', params_id = []\<rparr>
     \<lparr>v_id = ''65b000000000000000000001'', destination = Some (ascii ''Paris''),
      description = Some (ascii ''City of light''),
      startDate = Some 1762128000000, endDate = Some 1762214400000, price = Some 500,
      likedUserIds = [''65a000000000000000000001''], imageName = None\<rparr>
     None
     \<lparr>vacations = [], images = [], journal = [], cloud_up = True\<rparr>
   = (\<lparr>status = 201,
       body = Json [(''_id'', JObjectId ''65b000000000000000000001''),
                    (''destination'', JString (ascii ''Paris'')),
                    (''description'', JString (ascii ''City of light'')),
                    (''startDate'', JDate 1762128000000), (''endDate'', JDate 1762214400000),
                    (''price'', JNumber 500),
                    (''likedUserIds'', JArray [JObjectId ''65a000000000000000000001'']),
                    (''imageUrl'', JString (ascii ''http://localhost:4001/api/vacations/images/undefined''))]\<rparr>,
      \<lparr>vacations =
         [\<lparr>v_id = ''65b000000000000000000001'', destination = Some (ascii ''Paris''),
           description = Some (ascii ''City of light''),
           startDate = Some 1762128000000, endDate = Some 1762214400000, price = Some 500,
           likedUserIds = [''65a000000000000000000001''], imageName = None\<rparr>],
       images = [], journal = [InsertRecord ''65b000000000000000000001''], cloud_up = True\<rparr>)
   \<and> map_option roleId (example_tokens ''tok-adm'') = Some (Some (role_number Admin))
   \<and> map_option u_id (example_tokens ''tok-adm'') = Some ''65a000000000000000000001''
   \<and> map likedUserIds (vacations (snd (updateVacation
        \<lparr>v_id = ''65b000000000000000000001'', destination = Some (ascii ''Paris''),
         description = Some (ascii ''City of light''),
         startDate = Some 1762128000000, endDate = Some 1762214400000, price = Some 500,
         likedUserIds = [''65a000000000000000000001''], imageName = None\<rparr>
        None
        \<lparr>vacations =
           [\<lparr>v_id = ''65b000000000000000000001'', destination = Some (ascii ''Rome''),
             description = Some (ascii ''Eternal city''),
             startDate = Some 1762128000000, endDate = Some 1762214400000, price = Some 400,
             likedUserIds = [], imageName = None\<rparr>],
         images = [], journal = [], cloud_up = True\<rparr>))) = [[]]
   \<and> status (fst (post_like example_tokens False ''http://localhost:4001/api/vacations/images/''
        \<lparr>authorization = Some ''Bearer tok-adm'', params_id = ''65b000000000000000000001''\<rparr>
        \<lparr>vacations =
           [\<lparr>v_id = ''65b000000000000000000001'', destination = Some (ascii ''Rome''),
             description = Some (ascii ''Eternal city''),
             startDate = Some 1762128000000, endDate = Some 1762214400000, price = Some 400,
             likedUserIds = [], imageName = None\<rparr>],
         images = [], journal = [], cloud_up = True\<rparr>)) = 403"
  by (simp add: post_vacation_def example_tokens_def verifyToken_def decodeToken_def verifyAdmin_def
        preventXssAttack_def addVacation_def updateVacation_def validate_def validateSync_file_def
        validateSync_shared_def validate_id_def is_objectId_def is_hex_def validate_text_def
        validate_required_def validate_price_def date_lt_def setHours0_def day_start_def
        local_day_def fixed_zone_def msPerDay_def save_def log_effect_def toObject_def
        property_def ascii_def findByIdAndUpdate_set_def set_updateData_def overlay_def
        modify_def post_like_def like_route_def preventAdminLike_def catchAll_def)

section \<open>The query of each filter tag\<close>

text \<open>
  C5: \<open>buildVacationQuery\<close> yields the empty query for \<open>all\<close> and for every tag other than
  \<open>liked\<close>, \<open>active\<close> and \<open>upcoming\<close>, and every document matches the empty query; for
  \<open>liked\<close> with a user id it yields the query that matches exactly the documents whose
  \<open>likedUserIds\<close> contain that id, and the empty query when the user id is null; for
  \<open>active\<close> the query that matches exactly \<open>startDate \<le> now \<and> endDate \<ge> now\<close>, with
  \<open>now\<close> the clock at the request; for \<open>upcoming\<close> the query that matches exactly
  \<open>startDate > now\<close>.
\<close>

theorem buildVacationQuery_predicates:
  "buildVacationQuery now ''all'' userId = []
   \<and> (tag \<notin> {''liked'', ''active'', ''upcoming''} \<longrightarrow> buildVacationQuery now tag userId = [])
   \<and> matches [] d
   \<and> buildVacationQuery now ''liked'' (Some u) = [(F_likedUserIds, Equals u)]
   \<and> matches (buildVacationQuery now ''liked'' (Some u)) d = (u \<in> set (likedUserIds d))
   \<and> buildVacationQuery now ''liked'' None = []
   \<and> buildVacationQuery now ''active'' userId = [(F_startDate, Lte now), (F_endDate, Gte now)]
   \<and> matches (buildVacationQuery now ''active'' userId) d
       = (\<exists>s e. startDate d = Some s \<and> endDate d = Some e \<and> s \<le> now \<and> e \<ge> now)
   \<and> buildVacationQuery now ''upcoming'' userId = [(F_startDate, Gt now)]
   \<and> matches (buildVacationQuery now ''upcoming'' userId) d
       = (\<exists>s. startDate d = Some s \<and> s > now)"
proof -
  have active: "(compares (Lte now) (startDate d) \<and> compares (Gte now) (endDate d))
                  = (\<exists>s e. startDate d = Some s \<and> endDate d = Some e \<and> s \<le> now \<and> e \<ge> now)"
    by (cases "startDate d"; cases "endDate d") simp_all
  have upcoming: "compares (Gt now) (startDate d) = (\<exists>s. startDate d = Some s \<and> s > now)"
    by (cases "startDate d") simp_all
  show ?thesis
    using active upcoming by (simp add: buildVacationQuery_def matches_def)
qed

theorem buildVacationQuery_predicates_witness:
  "buildVacationQuery 100 ''recent'' (Some ''u1'') = []
   \<and> matches (buildVacationQuery 100 ''liked'' (Some ''u1''))
        \<lparr>v_id = ''a1'', destination = None, description = None, startDate = Some 50, endDate = Some 150,
         price = None, likedUserIds = [''u2'', ''u1'']\<rparr>
   \<and> matches (buildVacationQuery 100 ''active'' None)
        \<lparr>v_id = ''a1'', destination = None, description = None, startDate = Some 50, endDate = Some 150,
         price = None, likedUserIds = [''u2'', ''u1'']\<rparr>
   \<and> \<not> matches (buildVacationQuery 100 ''upcoming'' None)
        \<lparr>v_id = ''a1'', destination = None, description = None, startDate = Some 50, endDate = Some 150,
         price = None, likedUserIds = [''u2'', ''u1'']\<rparr>"
  using buildVacationQuery_predicates [of 100 "Some ''u1''" "''recent''"
      "\<lparr>v_id = ''a1'', destination = None, description = None, startDate = Some 50, endDate = Some 150,
        price = None, likedUserIds = [''u2'', ''u1'']\<rparr>" "''u1''"]
    buildVacationQuery_predicates [of 100 None "''recent''"
      "\<lparr>v_id = ''a1'', destination = None, description = None, startDate = Some 50, endDate = Some 150,
        price = None, likedUserIds = [''u2'', ''u1'']\<rparr>" "''u1''"]
  by (simp add: matches_def)

section \<open>The pagination law\<close>


















section \<open>The CSV report\<close>

lemma join_rows: "join sep (h # map f vs) = h @ concat (map (\<lambda>v. sep @ f v) vs)"
  by (induction vs arbitrary: h) simp_all

text \<open>
  C7: \<open>generateVacationsReportCSV\<close> returns the byte-order mark, the header
  \<open>destination,likes\<close> and, for each vacation in storage order, a newline followed by the
  destination in double quotes with every double quote in it doubled, a comma, and the
  number of entries of \<open>likedUserIds\<close> in decimal digits. For two vacations, Paris with 3
  likes and Sao "Tropez" with 0 likes (the a carries a tilde: code unit 227), the text
  after the mark is the header, then \<open>"Paris",3\<close>, then the row whose destination is
  \<open>"\<close>, Sao, a space, \<open>""Tropez"""\<close>, followed by \<open>,0\<close>; the three lines are joined by
  single newlines.
\<close>

theorem csv_report:
  "generateVacationsReportCSV w
     = [0xFEFF] @ ascii ''destination,likes''
       @ concat (map (\<lambda>v. [10] @ [34] @ concat (map (\<lambda>c. if c = 34 then [34, 34] else [c]) (String_of (destination v)))
                              @ [34] @ [44] @ decimal (length (likedUserIds v)))
                     (vacations w))
   \<and> (\<forall>v \<in> set (vacations w). list_all is_digit (decimal (length (likedUserIds v)))
         \<and> digits_value 10 (decimal (length (likedUserIds v))) = length (likedUserIds v))
   \<and> generateVacationsReportCSV
        \<lparr>vacations =
           [\<lparr>v_id = ''a1'', destination = Some (ascii ''Paris''), description = None, startDate = None,
             endDate = None, price = None, likedUserIds = [''u1'', ''u2'', ''u3'']\<rparr>,
            \<lparr>v_id = ''a2'', destination = Some (ascii ''S'' @ [227] @ ascii ''o '' @ [34] @ ascii ''Tropez'' @ [34]),
             description = None, startDate = None, endDate = None, price = None, likedUserIds = []\<rparr>],
         images = [], journal = [], cloud_up = True\<rparr>
       = [0xFEFF] @ ascii ''destination,likes'' @ [10]
         @ [34] @ ascii ''Paris'' @ [34] @ ascii '',3'' @ [10]
         @ [34] @ ascii ''S'' @ [227] @ ascii ''o '' @ [34, 34] @ ascii ''Tropez'' @ [34, 34] @ [34] @ ascii '',0''"
proof -
  have scenario: "generateVacationsReportCSV
        \<lparr>vacations =
           [\<lparr>v_id = ''a1'', destination = Some (ascii ''Paris''), description = None, startDate = None,
             endDate = None, price = None, likedUserIds = [''u1'', ''u2'', ''u3'']\<rparr>,
            \<lparr>v_id = ''a2'', destination = Some (ascii ''S'' @ [227] @ ascii ''o '' @ [34] @ ascii ''Tropez'' @ [34]),
             description = None, startDate = None, endDate = None, price = None, likedUserIds = []\<rparr>],
         images = [], journal = [], cloud_up = True\<rparr>
       = [0xFEFF] @ ascii ''destination,likes'' @ [10]
         @ [34] @ ascii ''Paris'' @ [34] @ ascii '',3'' @ [10]
         @ [34] @ ascii ''S'' @ [227] @ ascii ''o '' @ [34, 34] @ ascii ''Tropez'' @ [34, 34] @ [34] @ ascii '',0''"
    by (simp add: generateVacationsReportCSV_def csv_row_def replace_quotes_def String_of_def
          ascii_def decimal.simps)
  show ?thesis
    using scenario
    by (simp add: generateVacationsReportCSV_def Let_def join_rows csv_row_def replace_quotes_def
          decimal_digits digits_value_decimal)
qed

theorem csv_report_witness:
  "generateVacationsReportCSV
     \<lparr>vacations =
        [\<lparr>v_id = ''a1'', destination = Some (ascii ''Oslo''), description = None, startDate = None,
          endDate = None, price = None, likedUserIds = [''u1'', ''u2'']\<rparr>],
      images = [], journal = [], cloud_up = True\<rparr>
   = [0xFEFF] @ ascii ''destination,likes'' @ [10, 34] @ ascii ''Oslo'' @ [34] @ ascii '',2''
   \<and> digits_value 10 (decimal 2) = 2"
  using csv_report [of
     "\<lparr>vacations =
        [\<lparr>v_id = ''a1'', destination = Some (ascii ''Oslo''), description = None, startDate = None,
          endDate = None, price = None, likedUserIds = [''u1'', ''u2'']\<rparr>],
      images = [], journal = [], cloud_up = True\<rparr>"]
  by (simp add: String_of_def ascii_def decimal.simps)

section \<open>The serialised vacation\<close>

lemma map_of_property_other:
  "name \<noteq> k \<Longrightarrow> map_of (property name wrap value) k = None"
  by (cases "value") (simp_all add: property_def)

lemma toObject_likedUserIds:
  "map_of (toObject base v) ''likedUserIds'' = Some (JArray (map JObjectId (likedUserIds v)))"
  by (simp add: toObject_def map_add_def map_of_property_other)

lemma list_ex_ids: "list_ex (\<lambda>i. id_toString i = u) (map JObjectId ids) = (u \<in> set ids)"
  by (induction ids) auto

text \<open>
  C8: the object \<open>serializeVacation\<close> returns for a vacation document and a requesting
  user has \<open>likesCount\<close> equal to the length of \<open>likedUserIds\<close> (the number of liking users,
  the array holding each at most once), \<open>likedByMe\<close> equal to whether the user's id is in
  \<open>likedUserIds\<close>, and no property \<open>likedUserIds\<close>.
\<close>

theorem serializeVacation_fields:
  "map_of (serializeVacation base v u) ''likesCount'' = Some (JNumber (of_nat (length (likedUserIds v))))
   \<and> (distinct (likedUserIds v) \<longrightarrow>
        map_of (serializeVacation base v u) ''likesCount'' = Some (JNumber (of_nat (card (set (likedUserIds v))))))
   \<and> map_of (serializeVacation base v u) ''likedByMe'' = Some (JBool (u \<in> set (likedUserIds v)))
   \<and> map_of (serializeVacation base v u) ''likedUserIds'' = None
   \<and> ''likedUserIds'' \<notin> fst ` set (serializeVacation base v u)"
proof -
  have absent: "map_of (serializeVacation base v u) ''likedUserIds'' = None"
    by (simp add: serializeVacation_def Let_def toObject_likedUserIds update_conv' delete_conv')
  have "map_of (serializeVacation base v u) ''likesCount'' = Some (JNumber (of_nat (length (likedUserIds v))))"
    by (simp add: serializeVacation_def Let_def toObject_likedUserIds update_conv')
  moreover have "map_of (serializeVacation base v u) ''likedByMe'' = Some (JBool (u \<in> set (likedUserIds v)))"
    by (simp add: serializeVacation_def Let_def toObject_likedUserIds update_conv' list_ex_ids)
  moreover have "''likedUserIds'' \<notin> fst ` set (serializeVacation base v u)"
    using absent by (simp add: map_of_eq_None_iff)
  ultimately show ?thesis
    using absent by (simp add: distinct_card)
qed

theorem serializeVacation_fields_witness:
  "serializeVacation ''http://localhost:4001/api/vacations/images/''
     \<lparr>v_id = ''a1'', destination = Some (ascii ''Paris''), description = None,
      startDate = Some 50, endDate = Some 150, price = Some 500, likedUserIds = [''u2'', ''u1''],
      imageName = Some ''p.jpg''\<rparr> ''u1''
   = [(''_id'', JString (ascii ''a1'')), (''destination'', JString (ascii ''Paris'')),
      (''startDate'', JDate 50), (''endDate'', JDate 150), (''price'', JNumber 500),
      (''imageName'', JString (ascii ''p.jpg'')),
      (''imageUrl'', JString (ascii ''http://localhost:4001/api/vacations/images/p.jpg'')),
      (''likedByMe'', JBool True), (''likesCount'', JNumber 2)]
   \<and> map_of (serializeVacation ''http://localhost:4001/api/vacations/images/''
     \<lparr>v_id = ''a1'', destination = Some (ascii ''Paris''), description = None,
      startDate = Some 50, endDate = Some 150, price = Some 500, likedUserIds = [''u2'', ''u1''],
      imageName = Some ''p.jpg''\<rparr> ''u1'') ''likesCount'' = Some (JNumber 2)"
  using serializeVacation_fields [of "''http://localhost:4001/api/vacations/images/''"
     "\<lparr>v_id = ''a1'', destination = Some (ascii ''Paris''), description = None,
      startDate = Some 50, endDate = Some 150, price = Some 500, likedUserIds = [''u2'', ''u1''],
      imageName = Some ''p.jpg''\<rparr>" "''u1''"]
  by (simp add: serializeVacation_def toObject_def property_def ascii_def)

section \<open>Page and page size\<close>

text \<open>
  C9: for every query value, absent or a string, and every rounding of literals to
  doubles: when \<open>Number(value)\<close> is a positive integer, \<open>parsePage\<close> and \<open>parsePageSize\<close>
  return that number; otherwise (NaN for a non-numeric or absent value, an infinity, a
  number that is not positive or not an integer) \<open>parsePage\<close> returns 1 and
  \<open>parsePageSize\<close> returns 9. Both results are positive integers in every case, and the
  decimal digits of a positive integer \<open>n\<close> that the rounding leaves exact parse to \<open>n\<close>.
\<close>

theorem parse_pagination:
  "(is_positive_integer (Number r64 value) \<longrightarrow>
      Finite (of_nat (parsePage r64 value)) = Number r64 value
      \<and> Finite (of_nat (parsePageSize r64 value)) = Number r64 value)
   \<and> (\<not> is_positive_integer (Number r64 value) \<longrightarrow>
      parsePage r64 value = 1 \<and> parsePageSize r64 value = 9)
   \<and> (Number r64 value \<in> {NaN, PosInfinity, NegInfinity} \<longrightarrow>
      parsePage r64 value = 1 \<and> parsePageSize r64 value = 9)
   \<and> (\<forall>q. Number r64 value = Finite q \<and> (q \<le> 0 \<or> q \<noteq> of_int \<lfloor>q\<rfloor>) \<longrightarrow>
      parsePage r64 value = 1 \<and> parsePageSize r64 value = 9)
   \<and> 0 < parsePage r64 value \<and> 0 < parsePageSize r64 value
   \<and> parsePage r64 None = 1 \<and> parsePageSize r64 None = 9
   \<and> (0 < n \<and> r64 (of_nat n) = Finite (of_nat n) \<longrightarrow>
      parsePage r64 (Some (decimal n)) = n \<and> parsePageSize r64 (Some (decimal n)) = n)"
proof -
  have returns: "is_positive_integer (Number r64 value) \<Longrightarrow>
      Finite (of_nat (parsePage r64 value)) = Number r64 value
      \<and> Finite (of_nat (parsePageSize r64 value)) = Number r64 value"
    by (simp add: parsePage_def parsePageSize_def Let_def as_nat_positive_integer)
  have falls_back: "\<not> is_positive_integer (Number r64 value) \<Longrightarrow>
      parsePage r64 value = 1 \<and> parsePageSize r64 value = 9"
    by (simp add: parsePage_def parsePageSize_def Let_def)
  have not_numbers: "Number r64 value \<in> {NaN, PosInfinity, NegInfinity} \<Longrightarrow>
      \<not> is_positive_integer (Number r64 value)"
    by (auto simp: is_positive_integer_def)
  have not_positive: "Number r64 value = Finite q \<and> (q \<le> 0 \<or> q \<noteq> of_int \<lfloor>q\<rfloor>) \<Longrightarrow>
      \<not> is_positive_integer (Number r64 value)" for q
    by (auto simp: is_positive_integer_def)
  have positive: "0 < parsePage r64 value \<and> 0 < parsePageSize r64 value"
    by (simp add: parsePage_def parsePageSize_def Let_def as_nat_positive)
  have absent: "parsePage r64 None = 1 \<and> parsePageSize r64 None = 9"
    by (simp add: parsePage_def parsePageSize_def Number_def is_positive_integer_def)
  have digits: "0 < n \<and> r64 (of_nat n) = Finite (of_nat n) \<Longrightarrow>
      parsePage r64 (Some (decimal n)) = n \<and> parsePageSize r64 (Some (decimal n)) = n"
    by (simp add: parsePage_def parsePageSize_def Number_def StringToNumber_decimal
          positive_integer_of_nat as_nat_def)
  show ?thesis
    using returns falls_back not_numbers not_positive positive absent digits
    by blast
qed

text \<open>
  With exact rounding: \<open>25\<close> gives 25; \<open>abc\<close>, \<open>-3\<close>, \<open>2.5\<close> and \<open>0\<close> give the defaults.
\<close>

theorem parse_pagination_witness:
  "parsePage Finite (Some (ascii ''25'')) = 25
   \<and> parsePageSize Finite (Some (ascii ''25'')) = 25
   \<and> parsePage Finite (Some (ascii ''abc'')) = 1 \<and> parsePageSize Finite (Some (ascii ''abc'')) = 9
   \<and> parsePage Finite (Some (ascii ''-3'')) = 1 \<and> parsePageSize Finite (Some (ascii ''-3'')) = 9
   \<and> parsePage Finite (Some (ascii ''2.5'')) = 1 \<and> parsePageSize Finite (Some (ascii ''2.5'')) = 9
   \<and> parsePage Finite (Some (ascii ''0'')) = 1 \<and> parsePageSize Finite (Some (ascii ''0'')) = 9"
proof -
  have digits: "decimal 25 = ascii ''25''"
    by code_simp
  have exact: "(0 :: nat) < 25 \<and> Finite (of_nat 25) = Finite (of_nat 25)"
    by simp
  have abc: "\<not> is_positive_integer (Number Finite (Some (ascii ''abc'')))"
    by code_simp
  have negative: "\<not> is_positive_integer (Number Finite (Some (ascii ''-3'')))"
    by code_simp
  have fraction: "\<not> is_positive_integer (Number Finite (Some (ascii ''2.5'')))"
    by code_simp
  have zero: "\<not> is_positive_integer (Number Finite (Some (ascii ''0'')))"
    by code_simp
  show ?thesis
    using parse_pagination [of Finite "Some (ascii ''abc'')" 25]
      parse_pagination [of Finite "Some (ascii ''-3'')" 25]
      parse_pagination [of Finite "Some (ascii ''2.5'')" 25]
      parse_pagination [of Finite "Some (ascii ''0'')" 25]
      digits exact abc negative fraction zero
    by simp
qed

section \<open>The role of a registered user\<close>

text \<open>
  C10: whatever \<open>roleId\<close> the registration payload carries, \<open>register\<close> either fails and
  stores nothing, or stores exactly one new user, which is the payload with \<open>roleId\<close> set to
  \<open>Role.User\<close> and the password hashed; so every user that \<open>register\<close> adds to the
  collection has \<open>roleId = Role.User\<close>.
\<close>

theorem register_role:
  "(case register hash generateToken user users of
      (Inl e, users') \<Rightarrow> users' = users
    | (Inr token, users') \<Rightarrow>
        (\<exists>plain. password user = Some plain
           \<and> users' = users @ [user\<lparr>roleId := Some (role_number User), password := Some (hash plain)\<rparr>]
           \<and> token = generateToken (user\<lparr>roleId := Some (role_number User), password := Some (hash plain)\<rparr>)))
   \<and> (\<forall>u \<in> set (snd (register hash generateToken user users)).
         u \<in> set users \<or> roleId u = Some (role_number User))"
  by (auto simp: register_def validate_def save_user_def Let_def
        split: option.splits sum.splits if_splits)

text \<open>A payload that asks for the Admin role (\<open>roleId = 1\<close>) is stored with \<open>roleId = 2\<close>.\<close>

theorem register_role_witness:
  "snd (register (\<lambda>p. p @ p) (\<lambda>u. u_id u)
          \<lparr>u_id = ''u1'', firstName = Some (ascii ''Dana''), lastName = Some (ascii ''Levi''),
           email = Some (ascii ''dana@example.com''), password = Some (ascii ''secret''),
           roleId = Some (role_number Admin)\<rparr> [])
   = [\<lparr>u_id = ''u1'', firstName = Some (ascii ''Dana''), lastName = Some (ascii ''Levi''),
       email = Some (ascii ''dana@example.com''), password = Some (ascii ''secretsecret''),
       roleId = Some 2\<rparr>]"
proof -
  let ?user = "\<lparr>u_id = ''u1'', firstName = Some (ascii ''Dana''), lastName = Some (ascii ''Levi''),
           email = Some (ascii ''dana@example.com''), password = Some (ascii ''secret''),
           roleId = Some (role_number Admin)\<rparr>"
  have run: "fst (register (\<lambda>p. p @ p) (\<lambda>u. u_id u) ?user []) = Inr ''u1''"
    by code_simp
  obtain r users' where rw: "register (\<lambda>p. p @ p) (\<lambda>u. u_id u) ?user [] = (r, users')"
    by (cases "register (\<lambda>p. p @ p) (\<lambda>u. u_id u) ?user []")
  with run have r: "r = Inr ''u1''" by simp
  from register_role [where hash = "\<lambda>p. p @ p" and generateToken = "\<lambda>u. u_id u" and user = ?user and users = "[]"] rw r
  have "users' = [?user\<lparr>roleId := Some (role_number User), password := Some (ascii ''secret'' @ ascii ''secret'')\<rparr>]"
    by simp
  with rw show ?thesis by (simp add: ascii_def)
qed

end
